theory Spec2Isabelle
  imports Main "HOL-Library.Word" "HOL-Library.Sublist"
begin

section \<open>Strings\<close>

text \<open>
  A JavaScript string is a sequence of UTF-16 code units; \<open>length\<close>, \<open>slice\<close>,
  \<open>indexOf\<close> and indexing all count code units. \<open>lit\<close> embeds an ASCII literal.
\<close>

type_synonym jschar = "16 word"
type_synonym jsstring = "jschar list"

definition lit :: "string \<Rightarrow> jsstring" where
  "lit s = map of_char s"

text \<open>
  The characters matched by the regular expression class \<open>\s\<close> and stripped by
  \<open>String.prototype.trim\<close>: WhiteSpace and LineTerminator of ECMAScript (TAB, LF, VT, FF,
  CR, SP, NBSP, U+1680, U+2000..U+200A, U+2028, U+2029, U+202F, U+205F, U+3000, U+FEFF).
\<close>

definition isSpace :: "jschar \<Rightarrow> bool" where
  "isSpace c \<longleftrightarrow>
     c = 0x9 \<or> c = 0xA \<or> c = 0xB \<or> c = 0xC \<or> c = 0xD \<or> c = 0x20 \<or> c = 0xA0 \<or>
     c = 0x1680 \<or> (0x2000 \<le> c \<and> c \<le> 0x200A) \<or> c = 0x2028 \<or> c = 0x2029 \<or>
     c = 0x202F \<or> c = 0x205F \<or> c = 0x3000 \<or> c = 0xFEFF"

text \<open>\<^verbatim>\<open>text.replace(/\s+/g, " ")\<close>: every maximal run of whitespace becomes one space.\<close>

function replaceSpaceRuns :: "jsstring \<Rightarrow> jsstring" where
  "replaceSpaceRuns [] = []"
| "replaceSpaceRuns (c # cs) =
     (if isSpace c then 0x20 # replaceSpaceRuns (dropWhile isSpace cs)
      else c # replaceSpaceRuns cs)"
  by pat_completeness auto
termination
  by (relation "measure length") (auto simp: length_dropWhile_le less_Suc_eq_le)

text \<open>\<^verbatim>\<open>s.trim()\<close>\<close>

definition trim :: "jsstring \<Rightarrow> jsstring" where
  "trim s = rev (dropWhile isSpace (rev (dropWhile isSpace s)))"

text \<open>
  \<^verbatim>\<open>
  function normalizeWhitespace(text: string): string {
    return text.replace(/\s+/g, " ").trim();
  }
  function clamp(text: string, maxChars: number): string {
    if (text.length <= maxChars) return text;
    return text.slice(0, maxChars);
  }
  \<close>
\<close>

definition normalizeWhitespace :: "jsstring \<Rightarrow> jsstring" where
  "normalizeWhitespace text = trim (replaceSpaceRuns text)"

definition clamp :: "jsstring \<Rightarrow> nat \<Rightarrow> jsstring" where
  "clamp text maxChars = (if length text \<le> maxChars then text else take maxChars text)"

text \<open>A text in which no two neighbouring characters are both whitespace.\<close>

fun singleSpaced :: "jsstring \<Rightarrow> bool" where
  "singleSpaced [] \<longleftrightarrow> True"
| "singleSpaced [a] \<longleftrightarrow> True"
| "singleSpaced (a # b # cs) \<longleftrightarrow> \<not> (isSpace a \<and> isSpace b) \<and> singleSpaced (b # cs)"

section \<open>History list (client)\<close>

text \<open>
  \<^verbatim>\<open>
  type Summary = { id: number; url: string; title: string; bullets: string[]; created_at: string };
  function upsertByUrl(items: Summary[], entry: Summary): Summary[] {
    const without = items.filter((i) => i.url !== entry.url);
    return [entry, ...without];
  }
  \<close>
\<close>

record summary =
  id_num :: int
  url :: jsstring
  title :: jsstring
  bullets :: "jsstring list"
  created_at :: jsstring

definition upsertByUrl :: "summary list \<Rightarrow> summary \<Rightarrow> summary list" where
  "upsertByUrl items entry =
     (let without = filter (\<lambda>i. url i \<noteq> url entry) items in entry # without)"

section \<open>JSON values and thrown values\<close>

text \<open>
  The values \<^verbatim>\<open>JSON.parse\<close> can return. Numbers are IEEE doubles in the program; the
  model leaves their representation \<open>'n\<close> open. An object keeps its members in source
  order; a repeated key reads as its last occurrence (see \<open>getProp\<close>).
\<close>

datatype 'n json =
    JNull
  | JBool bool
  | JNum 'n
  | JStr jsstring
  | JArr "'n json list"
  | JObj "(jsstring \<times> 'n json) list"

text \<open>
  A thrown value: an \<^verbatim>\<open>Error\<close> object with its message, or anything else. A function that
  may throw returns \<open>thrown + 'a\<close>.
\<close>

datatype thrown = ErrorObj jsstring | OtherValue

section \<open>Recovering parser\<close>

text \<open>\<^verbatim>\<open>input.indexOf(c)\<close>, with \<open>None\<close> for -1, and \<^verbatim>\<open>s.slice(a, b)\<close> for \<open>0 \<le> a\<close>, \<open>0 \<le> b\<close>.\<close>

fun indexOf :: "jsstring \<Rightarrow> jschar \<Rightarrow> nat option" where
  "indexOf [] c = None"
| "indexOf (x # xs) c = (if x = c then Some 0 else map_option Suc (indexOf xs c))"

definition slice_str :: "jsstring \<Rightarrow> nat \<Rightarrow> nat \<Rightarrow> jsstring" where
  "slice_str s a b = take (b - a) (drop a s)"

text \<open>
  The two messages of \<^verbatim>\<open>extractFirstJsonObject\<close>:
  \<^verbatim>\<open>"JSON introuvable dans la r\u00e9ponse du mod\u00e8le"\<close> and
  \<^verbatim>\<open>"Impossible d'extraire un objet JSON valide"\<close>.
\<close>

definition msgJsonIntrouvable :: jsstring where
  "msgJsonIntrouvable =
     lit ''JSON introuvable dans la r'' @ [0xE9] @ lit ''ponse du mod'' @ [0xE8] @ lit ''le''"

definition msgJsonImpossible :: jsstring where
  "msgJsonImpossible = lit ''Impossible d'' @ [0x27] @ lit ''extraire un objet JSON valide''"

text \<open>
  \<^verbatim>\<open>
  function extractFirstJsonObject(input: string): any {
    try { return JSON.parse(input); } catch {}
    const start = input.indexOf("{");
    if (start === -1) throw new Error("JSON introuvable ...");
    let depth = 0;
    for (let i = start; i < input.length; i++) {
      const ch = input[i];
      if (ch === "{") depth++;
      else if (ch === "}") depth--;
      if (depth === 0) {
        const candidate = input.slice(start, i + 1);
        try { return JSON.parse(candidate); } catch {}
      }
    }
    throw new Error("Impossible d'extraire un objet JSON valide");
  }
  \<close>
  \<^verbatim>\<open>JSON.parse\<close> is the parameter \<open>parse\<close> (\<open>None\<close> when it throws); \<open>scanBraces\<close> is
  the \<^verbatim>\<open>for\<close> loop, with the loop variables \<open>i\<close> and \<open>depth\<close> as arguments.
\<close>

function scanBraces ::
  "(jsstring \<Rightarrow> 'n json option) \<Rightarrow> jsstring \<Rightarrow> nat \<Rightarrow> nat \<Rightarrow> int \<Rightarrow> thrown + 'n json" where
  "scanBraces parse input start i depth =
     (if i < length input then
        let ch = input ! i;
            depth' = (if ch = 0x7B then depth + 1 else if ch = 0x7D then depth - 1 else depth)
        in if depth' = 0 then
             (case parse (slice_str input start (i + 1)) of
                Some v \<Rightarrow> Inr v
              | None \<Rightarrow> scanBraces parse input start (i + 1) depth')
           else scanBraces parse input start (i + 1) depth'
      else Inl (ErrorObj msgJsonImpossible))"
  by pat_completeness auto
termination
  by (relation "measure (\<lambda>(parse, input, start, i, depth). length input - i)") auto

declare scanBraces.simps [simp del]

definition extractFirstJsonObject ::
  "(jsstring \<Rightarrow> 'n json option) \<Rightarrow> jsstring \<Rightarrow> thrown + 'n json" where
  "extractFirstJsonObject parse input =
     (case parse input of
        Some v \<Rightarrow> Inr v
      | None \<Rightarrow>
          (case indexOf input 0x7B of
             None \<Rightarrow> Inl (ErrorObj msgJsonIntrouvable)
           | Some start \<Rightarrow> scanBraces parse input start start 0))"

text \<open>
  The specification's reading of the scan, for comparison with the loop: the depth after
  a piece of text is the number of its opening braces minus the number of its closing
  braces, and position \<open>i\<close> closes a candidate when the depth of
  \<open>input[start..i]\<close> is zero and that substring parses.
\<close>

definition braceDepth :: "jsstring \<Rightarrow> int" where
  "braceDepth s = int (count_list s 0x7B) - int (count_list s 0x7D)"

definition closesAt :: "(jsstring \<Rightarrow> 'n json option) \<Rightarrow> jsstring \<Rightarrow> nat \<Rightarrow> nat \<Rightarrow> bool" where
  "closesAt parse input start i \<longleftrightarrow>
     braceDepth (slice_str input start (Suc i)) = 0 \<and> parse (slice_str input start (Suc i)) \<noteq> None"

definition recoverSpec ::
  "(jsstring \<Rightarrow> 'n json option) \<Rightarrow> jsstring \<Rightarrow> thrown + 'n json" where
  "recoverSpec parse input =
     (case indexOf input 0x7B of
        None \<Rightarrow> Inl (ErrorObj msgJsonIntrouvable)
      | Some start \<Rightarrow>
          (case find (closesAt parse input start) [start..<length input] of
             None \<Rightarrow> Inl (ErrorObj msgJsonImpossible)
           | Some i \<Rightarrow>
               (case parse (slice_str input start (Suc i)) of
                  Some v \<Rightarrow> Inr v
                | None \<Rightarrow> Inl (ErrorObj msgJsonImpossible))))"

text \<open>The search of \<open>recoverSpec\<close> from position \<open>i\<close> on, and its unfolding by one position.\<close>

definition scanSpec ::
  "(jsstring \<Rightarrow> 'n json option) \<Rightarrow> jsstring \<Rightarrow> nat \<Rightarrow> nat \<Rightarrow> thrown + 'n json" where
  "scanSpec parse input start i =
     (case find (closesAt parse input start) [i..<length input] of
        None \<Rightarrow> Inl (ErrorObj msgJsonImpossible)
      | Some j \<Rightarrow>
          (case parse (slice_str input start (Suc j)) of
             Some v \<Rightarrow> Inr v
           | None \<Rightarrow> Inl (ErrorObj msgJsonImpossible)))"

section \<open>Result assembly\<close>

text \<open>\<^verbatim>\<open>xs.join(sep)\<close> on an array of strings.\<close>

fun joinWith :: "jsstring \<Rightarrow> jsstring list \<Rightarrow> jsstring" where
  "joinWith sep [] = []"
| "joinWith sep [x] = x"
| "joinWith sep (x # y # ys) = x @ sep @ joinWith sep (y # ys)"

text \<open>
  \<^verbatim>\<open>parsed?.title\<close> and \<^verbatim>\<open>parsed?.summary_points\<close>: the member of an object, and
  \<^verbatim>\<open>undefined\<close> (here \<open>None\<close>) on \<^verbatim>\<open>null\<close>, on a primitive, on an array and on an object
  without the key.
\<close>

definition getProp :: "'n json \<Rightarrow> jsstring \<Rightarrow> 'n json option" where
  "getProp v k = (case v of JObj kvs \<Rightarrow> map_of (rev kvs) k | _ \<Rightarrow> None)"

text \<open>
  A list of results that may each be a thrown value: the values when none is thrown, the
  first thrown value otherwise (\<^verbatim>\<open>xs.map(f)\<close> with an \<open>f\<close> that may throw).
\<close>

fun collectResults :: "('e + 'a) list \<Rightarrow> 'e + 'a list" where
  "collectResults [] = Inr []"
| "collectResults (r # rs) =
     (case r of
        Inl e \<Rightarrow> Inl e
      | Inr x \<Rightarrow> (case collectResults rs of Inl e \<Rightarrow> Inl e | Inr xs \<Rightarrow> Inr (x # xs)))"

text \<open>The message of the \<^verbatim>\<open>TypeError\<close> raised when an object has no primitive value (V8's wording).\<close>

definition msgNotPrimitive :: jsstring where
  "msgNotPrimitive = lit ''Cannot convert object to primitive value''"

text \<open>
  \<^verbatim>\<open>String(p)\<close> on a parsed JSON value: the literals by name, a string as it is, an array
  as its elements joined by commas (with \<^verbatim>\<open>null\<close> as the empty string). An object is
  converted by its \<^verbatim>\<open>toString\<close> method: a parsed object inherits the one that returns
  \<^verbatim>\<open>[object Object]\<close>, unless it has a member named \<^verbatim>\<open>toString\<close> of its own; that member is a
  parsed value, not a function, \<^verbatim>\<open>valueOf\<close> gives no primitive either, and the conversion
  throws a \<^verbatim>\<open>TypeError\<close>. The conversion of an array throws when that of an element does.
  Number formatting is the parameter \<open>ns\<close>.
\<close>

fun jsString :: "('n \<Rightarrow> jsstring) \<Rightarrow> 'n json \<Rightarrow> thrown + jsstring" where
  "jsString ns JNull = Inr (lit ''null'')"
| "jsString ns (JBool b) = Inr (if b then lit ''true'' else lit ''false'')"
| "jsString ns (JNum n) = Inr (ns n)"
| "jsString ns (JStr s) = Inr s"
| "jsString ns (JArr xs) =
     (case collectResults (map (\<lambda>x. if x = JNull then Inr [] else jsString ns x) xs) of
        Inl e \<Rightarrow> Inl e
      | Inr strs \<Rightarrow> Inr (joinWith (lit '','') strs))"
| "jsString ns (JObj kvs) =
     (if lit ''toString'' \<in> set (map fst kvs) then Inl (ErrorObj msgNotPrimitive)
      else Inr (lit ''[object Object]''))"

text \<open>
  \<^verbatim>\<open>
  const title: string = typeof parsed?.title === "string" ? parsed.title : "R\u00e9sum\u00e9";
  const pointsRaw: unknown = parsed?.summary_points;
  const summary_points = Array.isArray(pointsRaw)
    ? pointsRaw.map((p) => String(p)).slice(0, 3)
    : [];
  \<close>
  The second expression occurs again in \<^verbatim>\<open>POST\<close>, on the parsed \<^verbatim>\<open>summary\<close> column.
  \<^verbatim>\<open>map\<close> converts every entry before \<^verbatim>\<open>slice\<close> keeps three, so a conversion that throws
  makes the whole expression throw, wherever the entry stands.
\<close>

definition defaultTitle :: jsstring where
  "defaultTitle = lit ''R'' @ [0xE9] @ lit ''sum'' @ [0xE9]"

definition assembleTitle :: "'n json \<Rightarrow> jsstring" where
  "assembleTitle parsed =
     (case getProp parsed (lit ''title'') of Some (JStr s) \<Rightarrow> s | _ \<Rightarrow> defaultTitle)"

definition summaryPoints :: "('n \<Rightarrow> jsstring) \<Rightarrow> 'n json \<Rightarrow> thrown + jsstring list" where
  "summaryPoints ns obj =
     (case getProp obj (lit ''summary_points'') of
        Some (JArr pointsRaw) \<Rightarrow>
          (case collectResults (map (jsString ns) pointsRaw) of
             Inl e \<Rightarrow> Inl e
           | Inr strs \<Rightarrow> Inr (take 3 strs))
      | _ \<Rightarrow> Inr [])"

section \<open>Extractor\<close>

text \<open>
  The document \<^verbatim>\<open>cheerio.load(html)\<close> returns, as far as the selectors and \<^verbatim>\<open>.text()\<close>
  read it: elements with a tag name and children, and text nodes. \<open>text_of\<close> is
  \<^verbatim>\<open>$(el).text()\<close>, the text of all descendants in document order.
\<close>

datatype node = Element jsstring "node list" | TextNode jsstring

fun text_of :: "node \<Rightarrow> jsstring" where
  "text_of (TextNode s) = s"
| "text_of (Element tag children) = concat (map text_of children)"

text \<open>
  \<^verbatim>\<open>$(selector).toArray()\<close>: the matching elements in document order. A selector is a
  predicate on the tags of the ancestors and the element's own tag.
\<close>

fun selectNodes ::
  "(jsstring list \<Rightarrow> jsstring \<Rightarrow> bool) \<Rightarrow> jsstring list \<Rightarrow> node \<Rightarrow> node list" where
  "selectNodes sel anc (TextNode s) = []"
| "selectNodes sel anc (Element tag children) =
     (if sel anc tag then [Element tag children] else []) @
     concat (map (selectNodes sel (tag # anc)) children)"

definition select :: "(jsstring list \<Rightarrow> jsstring \<Rightarrow> bool) \<Rightarrow> node list \<Rightarrow> node list" where
  "select sel doc = concat (map (selectNodes sel []) doc)"

text \<open>
  \<^verbatim>\<open>"article p, article h1, article h2, article li"\<close>, \<^verbatim>\<open>"main p, main li"\<close> and
  \<^verbatim>\<open>"p"\<close>.
\<close>

definition articleSel :: "jsstring list \<Rightarrow> jsstring \<Rightarrow> bool" where
  "articleSel anc tag \<longleftrightarrow>
     lit ''article'' \<in> set anc \<and>
     (tag = lit ''p'' \<or> tag = lit ''h1'' \<or> tag = lit ''h2'' \<or> tag = lit ''li'')"

definition mainSel :: "jsstring list \<Rightarrow> jsstring \<Rightarrow> bool" where
  "mainSel anc tag \<longleftrightarrow> lit ''main'' \<in> set anc \<and> (tag = lit ''p'' \<or> tag = lit ''li'')"

definition paraSel :: "jsstring list \<Rightarrow> jsstring \<Rightarrow> bool" where
  "paraSel anc tag \<longleftrightarrow> tag = lit ''p''"

text \<open>
  \<^verbatim>\<open>
  const articleText = $("article p, article h1, article h2, article li")
    .toArray().map((el) => $(el).text()).join(" \n");
  const mainText = $("main p, main li").toArray().map((el) => $(el).text()).join(" \n");
  const paraText = $("p").toArray().map((el) => $(el).text()).join(" \n");
  const raw = articleText || mainText || paraText;
  const normalized = normalizeWhitespace(raw);
  return clamp(normalized, 12000);
  \<close>
  \<open>orElse\<close> is \<^verbatim>\<open>||\<close> on strings: the left operand unless it is the empty string.
\<close>

definition articleText :: "node list \<Rightarrow> jsstring" where
  "articleText doc = joinWith (lit '' \<newline>'') (map text_of (select articleSel doc))"

definition mainText :: "node list \<Rightarrow> jsstring" where
  "mainText doc = joinWith (lit '' \<newline>'') (map text_of (select mainSel doc))"

definition paraText :: "node list \<Rightarrow> jsstring" where
  "paraText doc = joinWith (lit '' \<newline>'') (map text_of (select paraSel doc))"

definition orElse :: "jsstring \<Rightarrow> jsstring \<Rightarrow> jsstring" where
  "orElse a b = (if a \<noteq> [] then a else b)"

definition readableText :: "node list \<Rightarrow> jsstring" where
  "readableText doc =
     (let raw = orElse (articleText doc) (orElse (mainText doc) (paraText doc));
          normalized = normalizeWhitespace raw
      in clamp normalized 12000)"

section \<open>The pipeline and its collaborators\<close>

text \<open>\<^verbatim>\<open>`${n}`\<close> for a status code: its decimal digits.\<close>

function decimal :: "nat \<Rightarrow> jsstring" where
  "decimal n =
     (if n < 10 then [0x30 + of_nat n] else decimal (n div 10) @ [0x30 + of_nat (n mod 10)])"
  by pat_completeness auto
termination
  by (relation "measure id") auto

declare decimal.simps [simp del]

text \<open>
  What the route reads from the outside world, as values: the \<^verbatim>\<open>URL\<close> constructor
  (\<open>None\<close> when it throws), the page fetch (a thrown value, or a response with its status
  and the outcome of \<^verbatim>\<open>res.text()\<close>), the HTML parser, the environment variable, the call
  to the completion service (a thrown value, a non-2xx status with the outcome of
  \<^verbatim>\<open>res.text().catch(() => "")\<close>, or a 2xx response with the outcome of \<^verbatim>\<open>res.json()\<close>
  read at \<^verbatim>\<open>data?.choices?.[0]?.message?.content\<close>), and the insert into the table
  (\<^verbatim>\<open>{ data, error }\<close>).
\<close>

record parsed_url =
  protocol :: jsstring
  href :: jsstring

datatype page_fetch = PageThrows thrown | PageResponse nat "thrown + jsstring"

datatype mistral_fetch =
    MistralThrows thrown
  | MistralNotOk nat "jsstring option"
  | MistralOk "thrown + jsstring option"

record payload =
  original_url :: jsstring
  payload_title :: jsstring
  summary_json :: jsstring

record row =
  row_id :: int
  row_original_url :: jsstring
  row_title :: jsstring
  row_summary :: "jsstring option"
  row_created_at :: jsstring

datatype insert_result = InsertThrows thrown | InsertError jsstring | InsertData "row option"

record 'n env =
  json_parse :: "jsstring \<Rightarrow> 'n json option"
  number_toString :: "'n \<Rightarrow> jsstring"
  json_stringify_points :: "jsstring list \<Rightarrow> jsstring"
  new_URL :: "jsstring \<Rightarrow> parsed_url option"
  fetch_page :: "jsstring \<Rightarrow> page_fetch"
  cheerio_load :: "jsstring \<Rightarrow> node list"
  mistral_api_key :: "jsstring option"
  fetch_mistral :: "jsstring \<Rightarrow> jsstring \<Rightarrow> mistral_fetch"
  insert_summary :: "payload \<Rightarrow> insert_result"

text \<open>
  \<^verbatim>\<open>
  const res = await fetch(targetUrl, { headers, signal });
  if (!res.ok) throw new Error(`\u00c9chec du chargement de la page (${res.status})`);
  const html = await res.text();
  const $ = cheerio.load(html);
  ...
  \<close>
  \<^verbatim>\<open>res.ok\<close> is a status from 200 to 299.
\<close>

definition msgPageLoad :: "nat \<Rightarrow> jsstring" where
  "msgPageLoad status =
     [0xC9] @ lit ''chec du chargement de la page ('' @ decimal status @ lit '')''"

definition scrapeReadableText :: "'n env \<Rightarrow> jsstring \<Rightarrow> thrown + jsstring" where
  "scrapeReadableText env targetUrl =
     (case fetch_page env targetUrl of
        PageThrows e \<Rightarrow> Inl e
      | PageResponse status body \<Rightarrow>
          if \<not> (200 \<le> status \<and> status \<le> 299) then Inl (ErrorObj (msgPageLoad status))
          else
            (case body of
               Inl e \<Rightarrow> Inl e
             | Inr html \<Rightarrow> Inr (readableText (cheerio_load env html))))"

text \<open>
  \<^verbatim>\<open>
  const apiKey = process.env.MISTRAL_API_KEY;
  if (!apiKey) throw new Error("MISTRAL_API_KEY manquant");
  const userPrompt = `Le texte \u00e0 analyser est : '${text}'`;
  const res = await fetch(MISTRAL_API_URL, ...);
  if (!res.ok) {
    const errText = await res.text().catch(() => "");
    throw new Error(`Erreur Mistral: ${res.status} ${errText}`);
  }
  const data = (await res.json()) as any;
  const content: string | undefined = data?.choices?.[0]?.message?.content;
  if (!content) throw new Error("R\u00e9ponse Mistral vide");
  const parsed = extractFirstJsonObject(content);
  ...
  return { title, summary_points };
  \<close>
\<close>

definition msgKeyMissing :: jsstring where
  "msgKeyMissing = lit ''MISTRAL_API_KEY manquant''"

definition msgMistralError :: "nat \<Rightarrow> jsstring \<Rightarrow> jsstring" where
  "msgMistralError status errText =
     lit ''Erreur Mistral: '' @ decimal status @ lit '' '' @ errText"

definition msgMistralEmpty :: jsstring where
  "msgMistralEmpty = lit ''R'' @ [0xE9] @ lit ''ponse Mistral vide''"

definition userPrompt :: "jsstring \<Rightarrow> jsstring" where
  "userPrompt txt =
     lit ''Le texte '' @ [0xE0] @ lit '' analyser est : '' @ [0x27] @ txt @ [0x27]"

definition summarizeWithMistral ::
  "'n env \<Rightarrow> jsstring \<Rightarrow> thrown + (jsstring \<times> jsstring list)" where
  "summarizeWithMistral env txt =
     (case mistral_api_key env of
        None \<Rightarrow> Inl (ErrorObj msgKeyMissing)
      | Some apiKey \<Rightarrow>
          if apiKey = [] then Inl (ErrorObj msgKeyMissing)
          else
            (case fetch_mistral env apiKey (userPrompt txt) of
               MistralThrows e \<Rightarrow> Inl e
             | MistralNotOk status errText \<Rightarrow>
                 Inl (ErrorObj
                   (msgMistralError status (case errText of None \<Rightarrow> [] | Some t \<Rightarrow> t)))
             | MistralOk (Inl e) \<Rightarrow> Inl e
             | MistralOk (Inr None) \<Rightarrow> Inl (ErrorObj msgMistralEmpty)
             | MistralOk (Inr (Some content)) \<Rightarrow>
                 if content = [] then Inl (ErrorObj msgMistralEmpty)
                 else
                   (case extractFirstJsonObject (json_parse env) content of
                      Inl e \<Rightarrow> Inl e
                    | Inr parsed \<Rightarrow>
                        (case summaryPoints (number_toString env) parsed of
                           Inl e \<Rightarrow> Inl e
                         | Inr summary_points \<Rightarrow>
                             Inr (assembleTitle parsed, summary_points)))))"

text \<open>
  The request body after \<^verbatim>\<open>(await req.json().catch(() => ({}))) as { url?: string }\<close>:
  unreadable (then \<^verbatim>\<open>{}\<close> stands for it), or any JSON value; the cast checks nothing at run
  time. \<open>urlBody u\<close> is the body \<^verbatim>\<open>{ "url": u }\<close> for a string \<open>u\<close>. The response is
  \<^verbatim>\<open>NextResponse.json(body, { status })\<close> with an \<^verbatim>\<open>{ error }\<close> body or the summary.
\<close>

datatype 'n request = BodyUnreadable | Body "'n json"

definition urlBody :: "jsstring \<Rightarrow> 'n request" where
  "urlBody u = Body (JObj [(lit ''url'', JStr u)])"

datatype response = JsonError jsstring nat | JsonSummary summary nat

definition msgUrlMissing :: jsstring where
  "msgUrlMissing = lit ''Param'' @ [0xE8] @ lit ''tre url manquant''"

definition msgUrlInvalid :: jsstring where
  "msgUrlInvalid = lit ''URL invalide''"

definition msgNoContent :: jsstring where
  "msgNoContent = lit ''Aucun contenu exploitable sur la page''"

definition msgServerError :: jsstring where
  "msgServerError = lit ''Erreur serveur''"

text \<open>The message of the \<^verbatim>\<open>TypeError\<close> raised by \<^verbatim>\<open>inserted.id\<close> on a null row (V8's wording).\<close>

definition msgNullRow :: jsstring where
  "msgNullRow =
     lit ''Cannot read properties of null (reading '' @ [0x27] @ lit ''id'' @ [0x27] @ lit '')''"

text \<open>
  \<^verbatim>\<open>
  } catch (e: unknown) {
    const message = e instanceof Error ? e.message : "Erreur serveur";
    return NextResponse.json({ error: message }, { status: 500 });
  }
  \<close>
\<close>

definition errorMessage :: "thrown \<Rightarrow> jsstring" where
  "errorMessage e = (case e of ErrorObj message \<Rightarrow> message | OtherValue \<Rightarrow> msgServerError)"

definition catchAll :: "thrown + response \<Rightarrow> response" where
  "catchAll r = (case r of Inr resp \<Rightarrow> resp | Inl e \<Rightarrow> JsonError (errorMessage e) 500)"

text \<open>
  \<^verbatim>\<open>
  let bullets: string[] = [];
  try {
    const summaryObj = JSON.parse(inserted.summary ?? "{}");
    bullets = Array.isArray(summaryObj?.summary_points)
      ? summaryObj.summary_points.map((p: any) => String(p)).slice(0, 3)
      : [];
  } catch {}
  \<close>
\<close>

definition responseBullets :: "'n env \<Rightarrow> row \<Rightarrow> jsstring list" where
  "responseBullets env inserted =
     (case json_parse env (case row_summary inserted of None \<Rightarrow> lit ''{}'' | Some s \<Rightarrow> s) of
        None \<Rightarrow> []
      | Some summaryObj \<Rightarrow>
          (case summaryPoints (number_toString env) summaryObj of
             Inl e \<Rightarrow> []
           | Inr strs \<Rightarrow> strs))"

text \<open>
  \<^verbatim>\<open>
  export async function POST(req: Request) {
    try {
      const body = (await req.json().catch(() => ({}))) as { url?: string };
      const inputUrl = body?.url?.trim();
      if (!inputUrl) return NextResponse.json({ error: "Param\u00e8tre url manquant" }, { status: 400 });
      let parsed: URL;
      try {
        parsed = new URL(inputUrl);
        if (!/^https?:$/.test(parsed.protocol)) throw new Error("");
      } catch { return NextResponse.json({ error: "URL invalide" }, { status: 400 }); }
      const text = await scrapeReadableText(parsed.toString());
      if (!text) return NextResponse.json({ error: "Aucun contenu exploitable sur la page" }, { status: 422 });
      const { title, summary_points } = await summarizeWithMistral(text);
      const payload = { original_url: parsed.toString(), title, summary: JSON.stringify({ summary_points }) };
      const { data: inserted, error: insertError } = await supabase.from("summaries").insert(payload)...single();
      if (insertError) return NextResponse.json({ error: insertError.message }, { status: 500 });
      ...
      const response = { id: inserted.id, url: inserted.original_url, title: inserted.title, bullets,
                         created_at: inserted.created_at };
      return NextResponse.json(response, { status: 200 });
    } catch (e: unknown) { ... }
  }
  \<close>
\<close>

text \<open>
  \<^verbatim>\<open>body?.url?.trim()\<close>: \<^verbatim>\<open>undefined\<close> (here \<open>None\<close>) when the body has no \<^verbatim>\<open>url\<close> member
  or the member is \<^verbatim>\<open>null\<close>, the trimmed text when it is a string. A number, a boolean, an
  array and an object have no \<^verbatim>\<open>trim\<close> method, and the call throws a \<^verbatim>\<open>TypeError\<close> (the
  message is V8's).
\<close>

definition msgTrimNotFunction :: jsstring where
  "msgTrimNotFunction = lit ''body?.url?.trim is not a function''"

definition inputUrl :: "'n request \<Rightarrow> thrown + jsstring option" where
  "inputUrl req =
     (case req of
        BodyUnreadable \<Rightarrow> Inr None
      | Body body \<Rightarrow>
          (case getProp body (lit ''url'') of
             None \<Rightarrow> Inr None
           | Some JNull \<Rightarrow> Inr None
           | Some (JStr u) \<Rightarrow> Inr (Some (trim u))
           | Some _ \<Rightarrow> Inl (ErrorObj msgTrimNotFunction)))"

definition POST :: "'n env \<Rightarrow> 'n request \<Rightarrow> response" where
  "POST env req =
     catchAll
       (case inputUrl req of
          Inl e \<Rightarrow> Inl e
        | Inr None \<Rightarrow> Inr (JsonError msgUrlMissing 400)
        | Inr (Some u) \<Rightarrow>
            if u = [] then Inr (JsonError msgUrlMissing 400)
            else
              (case new_URL env u of
                 None \<Rightarrow> Inr (JsonError msgUrlInvalid 400)
               | Some parsed \<Rightarrow>
                   if protocol parsed \<noteq> lit ''http:'' \<and> protocol parsed \<noteq> lit ''https:''
                   then Inr (JsonError msgUrlInvalid 400)
                   else
                     (case scrapeReadableText env (href parsed) of
                        Inl e \<Rightarrow> Inl e
                      | Inr txt \<Rightarrow>
                          if txt = [] then Inr (JsonError msgNoContent 422)
                          else
                            (case summarizeWithMistral env txt of
                               Inl e \<Rightarrow> Inl e
                             | Inr (ttl, summary_points) \<Rightarrow>
                                 (case insert_summary env
                                         \<lparr>original_url = href parsed, payload_title = ttl,
                                          summary_json =
                                            json_stringify_points env summary_points\<rparr> of
                                    InsertThrows e \<Rightarrow> Inl e
                                  | InsertError message \<Rightarrow> Inr (JsonError message 500)
                                  | InsertData None \<Rightarrow> Inl (ErrorObj msgNullRow)
                                  | InsertData (Some inserted) \<Rightarrow>
                                      Inr (JsonSummary
                                            \<lparr>id_num = row_id inserted,
                                             url = row_original_url inserted,
                                             title = row_title inserted,
                                             bullets = responseBullets env inserted,
                                             created_at = row_created_at inserted\<rparr> 200))))))"

text \<open>
  A request gets past the two input checks of \<^verbatim>\<open>POST\<close> with the parsed address \<open>p\<close>:
  the trimmed \<^verbatim>\<open>url\<close> is a non-empty string that \<^verbatim>\<open>new URL\<close> accepts, with protocol
  \<^verbatim>\<open>http:\<close> or \<^verbatim>\<open>https:\<close>.
\<close>

definition acceptedUrl :: "'n env \<Rightarrow> 'n request \<Rightarrow> parsed_url \<Rightarrow> bool" where
  "acceptedUrl env req p \<longleftrightarrow>
     (case inputUrl req of
        Inr (Some u) \<Rightarrow>
          u \<noteq> [] \<and> new_URL env u = Some p \<and>
          (protocol p = lit ''http:'' \<or> protocol p = lit ''https:'')
      | _ \<Rightarrow> False)"

text \<open>
  Modelled from the spec: the persistence store is not part of the repository. Its
  contract (section 6) is that the insert "returns the stored row"; for the address this
  says that the returned row carries the \<^verbatim>\<open>original_url\<close> of the payload.
\<close>

definition storeEchoesUrl :: "'n env \<Rightarrow> bool" where
  "storeEchoesUrl env \<longleftrightarrow>
     (\<forall>pl inserted. insert_summary env pl = InsertData (Some inserted) \<longrightarrow>
        row_original_url inserted = original_url pl)"

section \<open>History load (client)\<close>

text \<open>
  \<^verbatim>\<open>
  function loadLocalHistory(): Summary[] {
    try {
      const raw = typeof window !== "undefined" ? localStorage.getItem(LOCAL_KEY) : null;
      const parsed = raw ? JSON.parse(raw) : [];
      if (Array.isArray(parsed)) return parsed as Summary[];
      return [];
    } catch { return []; }
  }
  \<close>
  The storage is absent (no \<^verbatim>\<open>window\<close>), unreadable (\<^verbatim>\<open>getItem\<close> throws) or holds an
  optional text under the key. The result is the parsed array as it is: the cast to
  \<^verbatim>\<open>Summary[]\<close> checks nothing.
\<close>

datatype storage = NoWindow | GetItemThrows | Stored "jsstring option"

definition loadLocalHistory ::
  "(jsstring \<Rightarrow> 'n json option) \<Rightarrow> storage \<Rightarrow> 'n json list" where
  "loadLocalHistory parse st =
     (case st of
        GetItemThrows \<Rightarrow> []
      | _ \<Rightarrow>
          (let raw = (case st of Stored r \<Rightarrow> r | _ \<Rightarrow> None) in
           if raw = None \<or> raw = Some [] then []
           else
             (case parse (the raw) of
                None \<Rightarrow> []
              | Some (JArr parsed) \<Rightarrow> parsed
              | Some _ \<Rightarrow> [])))"

section \<open>A concrete environment\<close>

text \<open>
  The theorems below hold for every environment. To run the model on examples, the
  built-ins get executable stand-ins: a parser for the JSON grammar (ECMA-404) that keeps
  a number as its lexeme, a serializer for \<^verbatim>\<open>{ summary_points }\<close>, a reader of
  \<^verbatim>\<open>scheme://rest\<close> addresses that appends the root path when there is none, and a table
  that returns the row it was given.
\<close>

definition isJsonWs :: "jschar \<Rightarrow> bool" where
  "isJsonWs c \<longleftrightarrow> c = 0x20 \<or> c = 0x9 \<or> c = 0xA \<or> c = 0xD"

definition isDigit :: "jschar \<Rightarrow> bool" where
  "isDigit c \<longleftrightarrow> 0x30 \<le> c \<and> c \<le> 0x39"

definition hexVal :: "jschar \<Rightarrow> jschar option" where
  "hexVal c =
     (if 0x30 \<le> c \<and> c \<le> 0x39 then Some (c - 0x30)
      else if 0x41 \<le> c \<and> c \<le> 0x46 then Some (c - 0x37)
      else if 0x61 \<le> c \<and> c \<le> 0x66 then Some (c - 0x57)
      else None)"

definition simpleEscape :: "jschar \<Rightarrow> jschar option" where
  "simpleEscape e =
     (if e = 0x22 then Some 0x22 else if e = 0x5C then Some 0x5C
      else if e = 0x2F then Some 0x2F else if e = 0x62 then Some 0x8
      else if e = 0x66 then Some 0xC else if e = 0x6E then Some 0xA
      else if e = 0x72 then Some 0xD else if e = 0x74 then Some 0x9
      else None)"

fun parseChars :: "jsstring \<Rightarrow> jsstring \<Rightarrow> (jsstring \<times> jsstring) option" where
  "parseChars acc [] = None"
| "parseChars acc [c] = (if c = 0x22 then Some (rev acc, []) else None)"
| "parseChars acc (c # e # cs) =
     (if c = 0x22 then Some (rev acc, e # cs)
      else if c = 0x5C then
        (if e = 0x75 then
           (case cs of
              h1 # h2 # h3 # h4 # rest \<Rightarrow>
                (case (hexVal h1, hexVal h2, hexVal h3, hexVal h4) of
                   (Some a, Some b, Some c', Some d) \<Rightarrow>
                     parseChars ((a * 0x1000 + b * 0x100 + c' * 0x10 + d) # acc) rest
                 | _ \<Rightarrow> None)
            | _ \<Rightarrow> None)
         else
           (case simpleEscape e of
              Some x \<Rightarrow> parseChars (x # acc) cs
            | None \<Rightarrow> None))
      else if c < 0x20 then None
      else parseChars (c # acc) (e # cs))"

definition takeDigits :: "jsstring \<Rightarrow> jsstring \<times> jsstring" where
  "takeDigits s = (takeWhile isDigit s, dropWhile isDigit s)"

definition parseNumber :: "jsstring \<Rightarrow> (jsstring \<times> jsstring) option" where
  "parseNumber s =
     (let (sign, s1) =
            (case s of c # r \<Rightarrow> if c = 0x2D then ([c], r) else ([], s) | [] \<Rightarrow> ([], s));
          (ds, s2) = takeDigits s1
      in if ds = [] \<or> (hd ds = 0x30 \<and> length ds > 1) then None
         else
           (case (case s2 of
                    c # r \<Rightarrow>
                      if c = 0x2E then
                        (let (fs, s3) = takeDigits r
                         in if fs = [] then None else Some (c # fs, s3))
                      else Some ([], s2)
                  | [] \<Rightarrow> Some ([], s2)) of
              None \<Rightarrow> None
            | Some (frac, s3) \<Rightarrow>
                (case (case s3 of
                         c # r \<Rightarrow>
                           if c = 0x65 \<or> c = 0x45 then
                             (let (sg, r') =
                                    (case r of
                                       d # r2 \<Rightarrow>
                                         if d = 0x2B \<or> d = 0x2D then ([d], r2) else ([], r)
                                     | [] \<Rightarrow> ([], r));
                                  (es, s4) = takeDigits r'
                              in if es = [] then None else Some (c # sg @ es, s4))
                           else Some ([], s3)
                       | [] \<Rightarrow> Some ([], s3)) of
                   None \<Rightarrow> None
                 | Some (ex, s4) \<Rightarrow> Some (sign @ ds @ frac @ ex, s4))))"

definition skipWs :: "jsstring \<Rightarrow> jsstring" where
  "skipWs s = dropWhile isJsonWs s"

definition expectLit :: "string \<Rightarrow> 'a \<Rightarrow> jsstring \<Rightarrow> ('a \<times> jsstring) option" where
  "expectLit w v s =
     (if take (length w) s = lit w then Some (v, drop (length w) s) else None)"

fun parseValue :: "nat \<Rightarrow> jsstring \<Rightarrow> (jsstring json \<times> jsstring) option"
and parseElements ::
  "nat \<Rightarrow> jsstring json list \<Rightarrow> jsstring \<Rightarrow> (jsstring json list \<times> jsstring) option"
and parseMembers ::
  "nat \<Rightarrow> (jsstring \<times> jsstring json) list \<Rightarrow> jsstring \<Rightarrow>
     ((jsstring \<times> jsstring json) list \<times> jsstring) option" where
  "parseValue 0 s = None"
| "parseValue (Suc fuel) s =
     (case skipWs s of
        [] \<Rightarrow> None
      | c # cs \<Rightarrow>
          if c = 0x7B then
            (case skipWs cs of
               [] \<Rightarrow> None
             | d # ds \<Rightarrow>
                 if d = 0x7D then Some (JObj [], ds)
                 else map_option (\<lambda>(kvs, r). (JObj kvs, r)) (parseMembers fuel [] (d # ds)))
          else if c = 0x5B then
            (case skipWs cs of
               [] \<Rightarrow> None
             | d # ds \<Rightarrow>
                 if d = 0x5D then Some (JArr [], ds)
                 else map_option (\<lambda>(vs, r). (JArr vs, r)) (parseElements fuel [] (d # ds)))
          else if c = 0x22 then map_option (\<lambda>(str, r). (JStr str, r)) (parseChars [] cs)
          else if c = 0x74 then expectLit ''true'' (JBool True) (c # cs)
          else if c = 0x66 then expectLit ''false'' (JBool False) (c # cs)
          else if c = 0x6E then expectLit ''null'' JNull (c # cs)
          else map_option (\<lambda>(n, r). (JNum n, r)) (parseNumber (c # cs)))"
| "parseElements 0 acc s = None"
| "parseElements (Suc fuel) acc s =
     (case parseValue fuel s of
        None \<Rightarrow> None
      | Some (v, r) \<Rightarrow>
          (case skipWs r of
             [] \<Rightarrow> None
           | c # cs \<Rightarrow>
               if c = 0x2C then parseElements fuel (v # acc) cs
               else if c = 0x5D then Some (rev (v # acc), cs)
               else None))"
| "parseMembers 0 acc s = None"
| "parseMembers (Suc fuel) acc s =
     (case skipWs s of
        [] \<Rightarrow> None
      | q # qs \<Rightarrow>
          if q \<noteq> 0x22 then None
          else
            (case parseChars [] qs of
               None \<Rightarrow> None
             | Some (k, r) \<Rightarrow>
                 (case skipWs r of
                    [] \<Rightarrow> None
                  | c # cs \<Rightarrow>
                      if c \<noteq> 0x3A then None
                      else
                        (case parseValue fuel cs of
                           None \<Rightarrow> None
                         | Some (v, r') \<Rightarrow>
                             (case skipWs r' of
                                [] \<Rightarrow> None
                              | e # es \<Rightarrow>
                                  if e = 0x2C then parseMembers fuel ((k, v) # acc) es
                                  else if e = 0x7D then Some (rev ((k, v) # acc), es)
                                  else None)))))"

text \<open>Every level of nesting consumes a character, so the length of the text is fuel enough.\<close>

definition parseJson :: "jsstring \<Rightarrow> jsstring json option" where
  "parseJson s =
     (case parseValue (Suc (length s)) s of
        None \<Rightarrow> None
      | Some (v, r) \<Rightarrow> if skipWs r = [] then Some v else None)"

definition quoteJson :: "jsstring \<Rightarrow> jsstring" where
  "quoteJson s =
     [0x22] @ concat (map (\<lambda>c. if c = 0x22 \<or> c = 0x5C then [0x5C, c] else [c]) s) @ [0x22]"

definition stringifyPoints :: "jsstring list \<Rightarrow> jsstring" where
  "stringifyPoints ps =
     [0x7B] @ quoteJson (lit ''summary_points'') @ lit '':['' @
     joinWith (lit '','') (map quoteJson ps) @ lit '']}''"

definition simpleURL :: "jsstring \<Rightarrow> parsed_url option" where
  "simpleURL s =
     (case indexOf s 0x3A of
        None \<Rightarrow> None
      | Some i \<Rightarrow>
          if i = 0 \<or> take 2 (drop (Suc i) s) \<noteq> lit ''//'' \<or> drop (i + 3) s = [] then None
          else Some \<lparr>protocol = take (Suc i) s,
                     href = (if 0x2F \<in> set (drop (i + 3) s) then s else s @ lit ''/'')\<rparr>)"

definition demoEnv :: "node list \<Rightarrow> jsstring \<Rightarrow> jsstring env" where
  "demoEnv doc completion =
     \<lparr>json_parse = parseJson,
      number_toString = (\<lambda>n. n),
      json_stringify_points = stringifyPoints,
      new_URL = simpleURL,
      fetch_page = (\<lambda>u. PageResponse 200 (Inr [])),
      cheerio_load = (\<lambda>html. doc),
      mistral_api_key = Some (lit ''key''),
      fetch_mistral = (\<lambda>k p. MistralOk (Inr (Some completion))),
      insert_summary = (\<lambda>p. InsertData (Some
         \<lparr>row_id = 1, row_original_url = original_url p, row_title = payload_title p,
          row_summary = Some (summary_json p),
          row_created_at = lit ''2025-01-01T00:00:00Z''\<rparr>))\<rparr>"



text \<open>A page with one paragraph, and the parsed form of \<^verbatim>\<open>https://example.com\<close>.\<close>

definition helloDoc :: "node list" where
  "helloDoc = [Element (lit ''p'') [TextNode (lit ''hello'')]]"

definition exampleUrl :: parsed_url where
  "exampleUrl = \<lparr>protocol = lit ''https:'', href = lit ''https://example.com/''\<rparr>"

text \<open>
  Three pages: one with an article, a main region and a free paragraph; one with a main
  region (holding a heading and a list item) and a paragraph outside it; one whose
  article holds two empty paragraphs, followed by a paragraph with text.
\<close>

definition articleDoc :: "node list" where
  "articleDoc =
     [Element (lit ''article'')
        [Element (lit ''h1'') [TextNode (lit ''T'')],
         Element (lit ''p'') [TextNode (lit ''a  b'')]],
      Element (lit ''main'') [Element (lit ''li'') [TextNode (lit ''m'')]],
      Element (lit ''p'') [TextNode (lit ''z'')]]"

definition mainDoc :: "node list" where
  "mainDoc =
     [Element (lit ''main'')
        [Element (lit ''h1'') [TextNode (lit ''T'')],
         Element (lit ''li'') [TextNode (lit ''m'')]],
      Element (lit ''div'') [Element (lit ''p'') [TextNode (lit ''z'')]]]"

definition blankArticleDoc :: "node list" where
  "blankArticleDoc =
     [Element (lit ''article'') [Element (lit ''p'') [], Element (lit ''p'') []],
      Element (lit ''p'') [TextNode (lit ''hello'')]]"

text \<open>
  The same page with one empty paragraph in the article, and with one paragraph that
  holds a single space.
\<close>

definition oneEmptyDoc :: "node list" where
  "oneEmptyDoc =
     [Element (lit ''article'') [Element (lit ''p'') []],
      Element (lit ''p'') [TextNode (lit ''hello'')]]"

definition spaceDoc :: "node list" where
  "spaceDoc =
     [Element (lit ''article'') [Element (lit ''p'') [TextNode (lit '' '')]],
      Element (lit ''p'') [TextNode (lit ''hello'')]]"



section \<open>Normalizer and clamper\<close>

lemma replaceSpaceRuns_spaces:
  "replaceSpaceRuns (replicate (Suc n) 0x20) = [0x20]"
proof -
  have "dropWhile isSpace (replicate n (0x20 :: jschar)) = []"
    by (simp add: isSpace_def)
  then show ?thesis
    by (simp add: isSpace_def)
qed

lemma normalizeWhitespace_spaces:
  "normalizeWhitespace (replicate (Suc n) 0x20) = []"
  by (simp only: normalizeWhitespace_def replaceSpaceRuns_spaces) (simp add: trim_def isSpace_def)

lemma replaceSpaceRuns_no_space:
  "\<forall>c \<in> set cs. \<not> isSpace c \<Longrightarrow> replaceSpaceRuns cs = cs"
  by (induction cs) auto

lemma trim_no_space:
  "\<forall>c \<in> set cs. \<not> isSpace c \<Longrightarrow> trim cs = cs"
proof -
  assume a: "\<forall>c \<in> set cs. \<not> isSpace c"
  then have "dropWhile isSpace cs = cs"
    by (cases cs) auto
  moreover from a have "dropWhile isSpace (rev cs) = rev cs"
    by (cases "rev cs") (auto simp: rev_swap [symmetric] dest: arg_cong [where f = set])
  ultimately show ?thesis
    by (simp add: trim_def)
qed

lemma normalizeWhitespace_no_space:
  "\<forall>c \<in> set cs. \<not> isSpace c \<Longrightarrow> normalizeWhitespace cs = cs"
  by (simp add: normalizeWhitespace_def replaceSpaceRuns_no_space trim_no_space)

lemma clamp_length_le: "length (clamp text n) \<le> n"
  by (simp add: clamp_def)

lemma clamp_prefix: "prefix (clamp text n) text"
  by (simp add: clamp_def take_is_prefix)

lemma singleSpaced_Cons:
  "singleSpaced (a # xs) \<longleftrightarrow> (xs = [] \<or> \<not> (isSpace a \<and> isSpace (hd xs))) \<and> singleSpaced xs"
  by (cases xs) auto

lemma replaceSpaceRuns_hd:
  "xs \<noteq> [] \<Longrightarrow> \<not> isSpace (hd xs) \<Longrightarrow> replaceSpaceRuns xs \<noteq> [] \<and> hd (replaceSpaceRuns xs) = hd xs"
  by (cases xs) auto

lemma replaceSpaceRuns_singleSpaced: "singleSpaced (replaceSpaceRuns t)"
proof (induction t rule: replaceSpaceRuns.induct)
  case 1
  show ?case by simp
next
  case (2 c cs)
  show ?case
  proof (cases "isSpace c")
    case True
    let ?ys = "dropWhile isSpace cs"
    have "replaceSpaceRuns ?ys = [] \<or> \<not> isSpace (hd (replaceSpaceRuns ?ys))"
    proof (cases "?ys = []")
      case True
      then have "replaceSpaceRuns ?ys = []"
        by (simp only: replaceSpaceRuns.simps)
      then show ?thesis by blast
    next
      case False
      then have "\<not> isSpace (hd ?ys)"
        by (rule hd_dropWhile)
      with False show ?thesis
        using replaceSpaceRuns_hd [of ?ys] by simp
    qed
    with True "2.IH"(1) show ?thesis
      by (auto simp: singleSpaced_Cons)
  next
    case False
    with "2.IH"(2) show ?thesis
      by (auto simp: singleSpaced_Cons)
  qed
qed

lemma singleSpaced_append:
  "singleSpaced (xs @ ys) \<Longrightarrow> singleSpaced xs \<and> singleSpaced ys"
proof (induction xs rule: singleSpaced.induct)
  case 1
  then show ?case by simp
next
  case (2 a)
  then show ?case by (cases ys) auto
next
  case (3 a b cs)
  then show ?case by auto
qed

lemma trim_infix: "\<exists>pre post. s = pre @ trim s @ post"
proof -
  obtain pre where p: "s = pre @ dropWhile isSpace s"
    by (metis takeWhile_dropWhile_id)
  let ?m = "dropWhile isSpace s"
  have "rev ?m = takeWhile isSpace (rev ?m) @ dropWhile isSpace (rev ?m)"
    by simp
  then have "?m = rev (dropWhile isSpace (rev ?m)) @ rev (takeWhile isSpace (rev ?m))"
    by (metis rev_append rev_rev_ident)
  then have "?m = trim s @ rev (takeWhile isSpace (rev ?m))"
    by (simp add: trim_def)
  with p show ?thesis
    by metis
qed

lemma trim_singleSpaced: "singleSpaced s \<Longrightarrow> singleSpaced (trim s)"
proof -
  assume a: "singleSpaced s"
  obtain pre post where "s = pre @ trim s @ post"
    using trim_infix by blast
  with a have "singleSpaced (pre @ trim s @ post)" by simp
  then have "singleSpaced (trim s @ post)"
    using singleSpaced_append by blast
  then show ?thesis
    using singleSpaced_append by blast
qed

lemma trim_set: "set (trim s) \<subseteq> set s"
proof -
  obtain pre post where "s = pre @ trim s @ post"
    using trim_infix by blast
  then have "set s = set pre \<union> set (trim s) \<union> set post"
    by (metis set_append sup_assoc)
  then show ?thesis by blast
qed

lemma replaceSpaceRuns_spaces_plain:
  "c \<in> set (replaceSpaceRuns t) \<Longrightarrow> isSpace c \<Longrightarrow> c = 0x20"
proof (induction t rule: replaceSpaceRuns.induct)
  case 1
  then show ?case by simp
next
  case (2 d cs)
  then show ?case
    by (cases "isSpace d") auto
qed

lemma trim_ends:
  "trim s \<noteq> [] \<Longrightarrow> \<not> isSpace (hd (trim s)) \<and> \<not> isSpace (last (trim s))"
proof -
  assume n: "trim s \<noteq> []"
  let ?m = "dropWhile isSpace s"
  let ?r = "dropWhile isSpace (rev ?m)"
  from n have r: "?r \<noteq> []"
    by (simp add: trim_def)
  then have h: "\<not> isSpace (hd ?r)"
    by (rule hd_dropWhile)
  have l: "last (trim s) = hd ?r"
    using r by (simp add: trim_def last_rev)
  have m: "?m \<noteq> []"
  proof
    assume "?m = []"
    then have "?r = []"
      by (simp only: rev.simps dropWhile.simps)
    with r show False by contradiction
  qed
  then have hm: "\<not> isSpace (hd ?m)"
    by (rule hd_dropWhile)
  obtain post where "?m = trim s @ post"
    by (metis append_take_drop_id rev_append rev_rev_ident takeWhile_dropWhile_id trim_def)
  with n have "hd (trim s) = hd ?m"
    by (metis hd_append2)
  with hm h l show ?thesis by simp
qed

lemma filter_dropWhile_not: "filter (\<lambda>c. \<not> P c) (dropWhile P xs) = filter (\<lambda>c. \<not> P c) xs"
  by (induction xs) auto

lemma replaceSpaceRuns_content:
  "filter (\<lambda>c. \<not> isSpace c) (replaceSpaceRuns t) = filter (\<lambda>c. \<not> isSpace c) t"
proof (induction t rule: replaceSpaceRuns.induct)
  case 1
  show ?case by simp
next
  case (2 c cs)
  show ?case
  proof (cases "isSpace c")
    case True
    have sp: "isSpace 0x20" by (simp add: isSpace_def)
    from True "2.IH"(1) sp show ?thesis
      by (simp add: filter_dropWhile_not)
  next
    case False
    with "2.IH"(2) show ?thesis by simp
  qed
qed

lemma trim_content: "filter (\<lambda>c. \<not> isSpace c) (trim s) = filter (\<lambda>c. \<not> isSpace c) s"
proof -
  have "filter (\<lambda>c. \<not> isSpace c) (trim s) =
      rev (filter (\<lambda>c. \<not> isSpace c) (dropWhile isSpace (rev (dropWhile isSpace s))))"
    by (simp add: trim_def rev_filter)
  also have "\<dots> = rev (filter (\<lambda>c. \<not> isSpace c) (rev (dropWhile isSpace s)))"
    by (simp only: filter_dropWhile_not)
  also have "\<dots> = filter (\<lambda>c. \<not> isSpace c) (dropWhile isSpace s)"
    by (simp add: rev_filter)
  also have "\<dots> = filter (\<lambda>c. \<not> isSpace c) s"
    by (rule filter_dropWhile_not)
  finally show ?thesis .
qed

lemma normalizeWhitespace_shape:
  "singleSpaced (normalizeWhitespace t) \<and>
   (\<forall>c \<in> set (normalizeWhitespace t). isSpace c \<longrightarrow> c = 0x20) \<and>
   (normalizeWhitespace t \<noteq> [] \<longrightarrow>
      \<not> isSpace (hd (normalizeWhitespace t)) \<and> \<not> isSpace (last (normalizeWhitespace t))) \<and>
   filter (\<lambda>c. \<not> isSpace c) (normalizeWhitespace t) = filter (\<lambda>c. \<not> isSpace c) t"
  using trim_set [of "replaceSpaceRuns t"] replaceSpaceRuns_spaces_plain [of _ t]
  by (auto simp: normalizeWhitespace_def trim_singleSpaced replaceSpaceRuns_singleSpaced
      trim_ends trim_content replaceSpaceRuns_content)

text \<open>
  C2 (as amended). Whenever the whitespace-collapsed and trimmed text is longer than
  12,000 code units, the clamped output has exactly 12,000 code units and is a prefix of
  the collapsed text; in every case the output is a prefix of the collapsed text, never
  longer than 12,000, and equal to the collapsed text when that fits. The collapsed text
  has no two neighbouring whitespace characters, its only whitespace character is the
  plain space, it neither starts nor ends with whitespace, and its other characters are
  those of the input in the same order.
\<close>

theorem C2_clamp_normalized:
  "(12000 < length (normalizeWhitespace text) \<longrightarrow>
      length (clamp (normalizeWhitespace text) 12000) = 12000) \<and>
   (length (normalizeWhitespace text) \<le> 12000 \<longrightarrow>
      clamp (normalizeWhitespace text) 12000 = normalizeWhitespace text) \<and>
   clamp (normalizeWhitespace text) 12000 = take 12000 (normalizeWhitespace text) \<and>
   prefix (clamp (normalizeWhitespace text) 12000) (normalizeWhitespace text) \<and>
   length (clamp (normalizeWhitespace text) 12000) \<le> 12000 \<and>
   singleSpaced (normalizeWhitespace text) \<and>
   (\<forall>c \<in> set (normalizeWhitespace text). isSpace c \<longrightarrow> c = 0x20) \<and>
   (normalizeWhitespace text \<noteq> [] \<longrightarrow>
      \<not> isSpace (hd (normalizeWhitespace text)) \<and>
      \<not> isSpace (last (normalizeWhitespace text))) \<and>
   filter (\<lambda>c. \<not> isSpace c) (normalizeWhitespace text) = filter (\<lambda>c. \<not> isSpace c) text"
proof -
  have "length (clamp (normalizeWhitespace text) 12000) \<le> 12000"
    by (rule clamp_length_le)
  moreover have "prefix (clamp (normalizeWhitespace text) 12000) (normalizeWhitespace text)"
    by (rule clamp_prefix)
  moreover have "clamp (normalizeWhitespace text) 12000 = take 12000 (normalizeWhitespace text)"
    by (simp add: clamp_def)
  ultimately show ?thesis
    using normalizeWhitespace_shape [of "text"] by simp
qed

theorem C2_clamp_normalized_witness:
  "normalizeWhitespace (lit ''  a \<newline>  b  '') = lit ''a b'' \<and>
   12000 < length (normalizeWhitespace (replicate 12001 0x61)) \<and>
   length (clamp (normalizeWhitespace (replicate 12001 0x61)) 12000) = 12000 \<and>
   prefix (clamp (normalizeWhitespace (replicate 12001 0x61)) 12000)
     (normalizeWhitespace (replicate 12001 0x61))"
proof -
  have "normalizeWhitespace (replicate 12001 0x61) = replicate 12001 0x61"
    by (rule normalizeWhitespace_no_space) (simp add: isSpace_def)
  then have "12000 < length (normalizeWhitespace (replicate 12001 0x61))"
    by simp
  moreover have "normalizeWhitespace (lit ''  a \<newline>  b  '') = lit ''a b''"
    by code_simp
  ultimately show ?thesis
    using C2_clamp_normalized [of "replicate 12001 0x61"] by blast
qed

text \<open>
  C2 as stated fails: a text of 12,001 spaces is longer than 12,000 characters, yet its
  normalized and clamped form is empty.
\<close>

theorem C2_long_input_counterexample:
  "12000 < length (replicate 12001 (0x20 :: jschar)) \<and>
   length (clamp (normalizeWhitespace (replicate 12001 0x20)) 12000) \<noteq> 12000"
proof -
  have "normalizeWhitespace (replicate (Suc 12000) 0x20) = []"
    by (rule normalizeWhitespace_spaces)
  then have "normalizeWhitespace (replicate 12001 0x20) = []"
    by simp
  then show ?thesis
    by (simp add: clamp_def)
qed

section \<open>History upsert\<close>

lemma distinct_map_filter_url:
  "distinct (map url items) \<Longrightarrow> distinct (map url (filter P items))"
  by (induction items) auto

text \<open>
  C8. \<open>upsertByUrl\<close> drops every element whose url equals the entry's and puts the entry
  in front: the entry is at index 0, it is the only element with its url, the rest is the
  old list filtered (so relative order is kept), and a list with one element per url stays
  so. The example of the specification is the last conjunct.
\<close>

theorem C8_upsertByUrl:
  "upsertByUrl items entry = entry # filter (\<lambda>i. url i \<noteq> url entry) items \<and>
   upsertByUrl items entry ! 0 = entry \<and>
   filter (\<lambda>i. url i = url entry) (upsertByUrl items entry) = [entry] \<and>
   subseq (tl (upsertByUrl items entry)) items \<and>
   (distinct (map url items) \<longrightarrow> distinct (map url (upsertByUrl items entry))) \<and>
   upsertByUrl
     [\<lparr>id_num = 1, url = lit ''a'', title = t1, bullets = b1, created_at = c1\<rparr>]
     \<lparr>id_num = 2, url = lit ''a'', title = t2, bullets = b2, created_at = c2\<rparr>
   = [\<lparr>id_num = 2, url = lit ''a'', title = t2, bullets = b2, created_at = c2\<rparr>]"
proof -
  have "filter (\<lambda>i. url i = url entry) (filter (\<lambda>i. url i \<noteq> url entry) items) = []"
    by (induction items) auto
  moreover have "distinct (map url items) \<Longrightarrow>
      distinct (map url (filter (\<lambda>i. url i \<noteq> url entry) items))"
    by (rule distinct_map_filter_url)
  ultimately show ?thesis
    by (auto simp: upsertByUrl_def)
qed

theorem C8_upsertByUrl_witness:
  "distinct (map url
     [\<lparr>id_num = 1, url = lit ''a'', title = [], bullets = [], created_at = []\<rparr>,
      \<lparr>id_num = 2, url = lit ''b'', title = [], bullets = [], created_at = []\<rparr>]) \<and>
   upsertByUrl
     [\<lparr>id_num = 1, url = lit ''a'', title = [], bullets = [], created_at = []\<rparr>,
      \<lparr>id_num = 2, url = lit ''b'', title = [], bullets = [], created_at = []\<rparr>]
     \<lparr>id_num = 3, url = lit ''b'', title = [], bullets = [], created_at = []\<rparr>
   = [\<lparr>id_num = 3, url = lit ''b'', title = [], bullets = [], created_at = []\<rparr>,
      \<lparr>id_num = 1, url = lit ''a'', title = [], bullets = [], created_at = []\<rparr>] \<and>
   distinct (map url (upsertByUrl
     [\<lparr>id_num = 1, url = lit ''a'', title = [], bullets = [], created_at = []\<rparr>,
      \<lparr>id_num = 2, url = lit ''b'', title = [], bullets = [], created_at = []\<rparr>]
     \<lparr>id_num = 3, url = lit ''b'', title = [], bullets = [], created_at = []\<rparr>))"
  using C8_upsertByUrl [of
     "[\<lparr>id_num = 1, url = lit ''a'', title = [], bullets = [], created_at = []\<rparr>,
       \<lparr>id_num = 2, url = lit ''b'', title = [], bullets = [], created_at = []\<rparr>]"
     "\<lparr>id_num = 3, url = lit ''b'', title = [], bullets = [], created_at = []\<rparr>"]
  by (simp add: lit_def)

section \<open>Recovering parser: the scan\<close>

lemma indexOf_Some:
  "indexOf s c = Some i \<Longrightarrow> i < length s \<and> s ! i = c \<and> c \<notin> set (take i s)"
  by (induction s arbitrary: i) (auto split: if_splits)

lemma indexOf_None: "indexOf s c = None \<longleftrightarrow> c \<notin> set s"
  by (induction s) auto

lemma slice_str_Suc:
  assumes "start \<le> i" "i < length input"
  shows "slice_str input start (Suc i) = slice_str input start i @ [input ! i]"
proof -
  have "Suc i - start = Suc (i - start)"
    using assms by simp
  moreover have "i - start < length (drop start input)"
    using assms by simp
  moreover have "drop start input ! (i - start) = input ! i"
    using assms by simp
  ultimately show ?thesis
    by (simp add: slice_str_def take_Suc_conv_app_nth)
qed

lemma braceDepth_snoc:
  "braceDepth (xs @ [c]) =
     braceDepth xs + (if c = 0x7B then 1 else if c = 0x7D then - 1 else 0)"
  by (simp add: braceDepth_def)

lemma scanSpec_end:
  "length input \<le> i \<Longrightarrow> scanSpec parse input start i = Inl (ErrorObj msgJsonImpossible)"
  by (simp add: scanSpec_def)

lemma scanSpec_step:
  "i < length input \<Longrightarrow>
   scanSpec parse input start i =
     (if braceDepth (slice_str input start (Suc i)) = 0 then
        (case parse (slice_str input start (Suc i)) of
           Some v \<Rightarrow> Inr v
         | None \<Rightarrow> scanSpec parse input start (Suc i))
      else scanSpec parse input start (Suc i))"
  by (auto simp: scanSpec_def upt_conv_Cons closesAt_def split: option.splits)

text \<open>
  The loop invariant: \<open>depth\<close> is the brace depth of \<open>input[start..i-1]\<close>. Under it the
  loop from \<open>i\<close> is the search from \<open>i\<close>.
\<close>

lemma scanBraces_scanSpec:
  "start \<le> i \<Longrightarrow> depth = braceDepth (slice_str input start i) \<Longrightarrow>
   scanBraces parse input start i depth = scanSpec parse input start i"
proof (induction parse input start i depth rule: scanBraces.induct)
  case (1 parse input start i depth)
  show ?case
  proof (cases "i < length input")
    case False
    then show ?thesis
      by (subst scanBraces.simps) (simp add: scanSpec_end)
  next
    case True
    let ?D = "braceDepth (slice_str input start (Suc i))"
    have D: "(if input ! i = 0x7B then depth + 1
              else if input ! i = 0x7D then depth - 1 else depth) = ?D"
      using "1.prems" True by (simp add: slice_str_Suc braceDepth_snoc)
    have step: "scanBraces parse input start i depth =
        (if ?D = 0 then
           (case parse (slice_str input start (Suc i)) of
              Some v \<Rightarrow> Inr v
            | None \<Rightarrow> scanBraces parse input start (Suc i) ?D)
         else scanBraces parse input start (Suc i) ?D)"
      by (subst scanBraces.simps) (simp only: True if_True Let_def D Suc_eq_plus1)
    have rec: "scanBraces parse input start (Suc i) ?D = scanSpec parse input start (Suc i)"
      if "?D \<noteq> 0 \<or> parse (slice_str input start (Suc i)) = None"
    proof (cases "?D = 0")
      case True
      with that have "parse (slice_str input start (i + 1)) = None" by simp
      from "1.IH"(1) [OF \<open>i < length input\<close> refl D [symmetric] True this] "1.prems"
      show ?thesis by simp
    next
      case False
      from "1.IH"(2) [OF \<open>i < length input\<close> refl D [symmetric] False] "1.prems"
      show ?thesis by simp
    qed
    show ?thesis
    proof (cases "?D \<noteq> 0 \<or> parse (slice_str input start (Suc i)) = None")
      case True
      from rec [OF True] True show ?thesis
        by (subst step, subst scanSpec_step [OF \<open>i < length input\<close>]) auto
    next
      case False
      then show ?thesis
        by (subst step, subst scanSpec_step [OF True]) auto
    qed
  qed
qed

lemma extract_recoverSpec:
  "parse input = None \<Longrightarrow> extractFirstJsonObject parse input = recoverSpec parse input"
  by (auto simp: extractFirstJsonObject_def recoverSpec_def scanBraces_scanSpec scanSpec_def
      slice_str_def braceDepth_def split: option.splits)

lemma extract_no_brace:
  "0x7B \<notin> set input \<Longrightarrow> parse input = None \<Longrightarrow>
   extractFirstJsonObject parse input = Inl (ErrorObj msgJsonIntrouvable)"
  by (simp add: extractFirstJsonObject_def indexOf_None [symmetric])

lemma example_index:
  \<open>indexOf (lit ''Sure! {"title":"A","summary_points":["x","y"]} Hope that helps!'') 0x7B
     = Some 6\<close>
  by (simp add: lit_def)

lemma example_scan:
  assumes \<open>parse (lit ''{"title":"A","summary_points":["x","y"]}'') = Some obj\<close>
  shows \<open>scanBraces parse
           (lit ''Sure! {"title":"A","summary_points":["x","y"]} Hope that helps!'') 6 6 0
         = Inr obj\<close>
  using assms by (simp add: scanBraces.simps lit_def slice_str_def)

text \<open>
  C3. When the full-text parse fails, the result is that of the scan the specification
  describes: from the first opening brace, the parse of the substring up to the first
  position at which the brace depth is zero and the substring parses (and the error of the
  exhausted scan when there is none). The start of the scan is the least index holding an
  opening brace. For the completion text of the specification, with
  any parser that rejects the whole text and reads the embedded object, the embedded
  object is returned.
\<close>

theorem C3_recovering_parser:
  \<open>(parse input = None \<longrightarrow> extractFirstJsonObject parse input = recoverSpec parse input) \<and>
   (indexOf input 0x7B = Some start \<longrightarrow>
      start < length input \<and> input ! start = 0x7B \<and> 0x7B \<notin> set (take start input)) \<and>
   (parse (lit ''Sure! {"title":"A","summary_points":["x","y"]} Hope that helps!'') = None \<longrightarrow>
    parse (lit ''{"title":"A","summary_points":["x","y"]}'') = Some obj \<longrightarrow>
    extractFirstJsonObject parse
      (lit ''Sure! {"title":"A","summary_points":["x","y"]} Hope that helps!'') = Inr obj)\<close>
proof (intro conjI impI)
  assume "parse input = None"
  then show "extractFirstJsonObject parse input = recoverSpec parse input"
    by (rule extract_recoverSpec)
next
  assume "indexOf input 0x7B = Some start"
  then show "start < length input" and "input ! start = 0x7B"
    and "0x7B \<notin> set (take start input)"
    by (simp_all add: indexOf_Some)
next
  assume \<open>parse (lit ''Sure! {"title":"A","summary_points":["x","y"]} Hope that helps!'') = None\<close>
    and \<open>parse (lit ''{"title":"A","summary_points":["x","y"]}'') = Some obj\<close>
  then show \<open>extractFirstJsonObject parse
      (lit ''Sure! {"title":"A","summary_points":["x","y"]} Hope that helps!'') = Inr obj\<close>
    by (simp add: extractFirstJsonObject_def example_index example_scan)
qed

theorem C3_recovering_parser_witness:
  \<open>parseJson (lit ''Sure! {"title":"A","summary_points":["x","y"]} Hope that helps!'') = None \<and>
   parseJson (lit ''{"title":"A","summary_points":["x","y"]}'') =
     Some (JObj [(lit ''title'', JStr (lit ''A'')),
                 (lit ''summary_points'', JArr [JStr (lit ''x''), JStr (lit ''y'')])]) \<and>
   indexOf (lit ''Sure! {"title":"A","summary_points":["x","y"]} Hope that helps!'') 0x7B =
     Some 6 \<and>
   extractFirstJsonObject parseJson
     (lit ''Sure! {"title":"A","summary_points":["x","y"]} Hope that helps!'') =
     recoverSpec parseJson
       (lit ''Sure! {"title":"A","summary_points":["x","y"]} Hope that helps!'') \<and>
   extractFirstJsonObject parseJson
     (lit ''Sure! {"title":"A","summary_points":["x","y"]} Hope that helps!'') =
     Inr (JObj [(lit ''title'', JStr (lit ''A'')),
                (lit ''summary_points'', JArr [JStr (lit ''x''), JStr (lit ''y'')])])\<close>
proof -
  have whole:
    \<open>parseJson (lit ''Sure! {"title":"A","summary_points":["x","y"]} Hope that helps!'') = None\<close>
    by code_simp
  have part:
    \<open>parseJson (lit ''{"title":"A","summary_points":["x","y"]}'') =
       Some (JObj [(lit ''title'', JStr (lit ''A'')),
                   (lit ''summary_points'', JArr [JStr (lit ''x''), JStr (lit ''y'')])])\<close>
    by code_simp
  from whole part example_index
    C3_recovering_parser [of parseJson
      \<open>lit ''Sure! {"title":"A","summary_points":["x","y"]} Hope that helps!''\<close> 6
      \<open>JObj [(lit ''title'', JStr (lit ''A'')),
             (lit ''summary_points'', JArr [JStr (lit ''x''), JStr (lit ''y'')])]\<close>]
  show ?thesis
    by blast
qed

text \<open>
  C4 (as amended). A text without an opening brace whose full-text parse fails is
  rejected with the first error, whatever the parser does on other texts; when its
  full-text parse succeeds, the parsed value is returned.
\<close>

theorem C4_no_brace:
  "0x7B \<notin> set input \<longrightarrow>
     (parse input = None \<longrightarrow>
        extractFirstJsonObject parse input = Inl (ErrorObj msgJsonIntrouvable)) \<and>
     (parse input = Some v \<longrightarrow> extractFirstJsonObject parse input = Inr v)"
  by (simp add: extract_no_brace) (simp add: extractFirstJsonObject_def)

theorem C4_no_brace_witness:
  "0x7B \<notin> set (lit ''hello'') \<and> parseJson (lit ''hello'') = None \<and>
   extractFirstJsonObject parseJson (lit ''hello'') = Inl (ErrorObj msgJsonIntrouvable)"
proof -
  have nb: "0x7B \<notin> set (lit ''hello'')"
    by (simp add: lit_def)
  have np: "parseJson (lit ''hello'') = None"
    by code_simp
  from nb np C4_no_brace [of "lit ''hello''" parseJson] show ?thesis
    by blast
qed

text \<open>
  C4 as stated fails: the text \<^verbatim>\<open>[]\<close> has no opening brace, and the parser returns the
  empty array instead of failing, because the full text is parsed first.
\<close>

theorem C4_no_brace_counterexample:
  "0x7B \<notin> set (lit ''[]'') \<and> extractFirstJsonObject parseJson (lit ''[]'') = Inr (JArr [])"
proof -
  have "parseJson (lit ''[]'') = Some (JArr [])"
    by code_simp
  then show ?thesis
    by (simp add: extractFirstJsonObject_def lit_def)
qed

section \<open>Key points\<close>









text \<open>Each way the completion stage fails, and what it throws.\<close>

lemma summarize_failures:
  "(mistral_api_key env = None \<or> mistral_api_key env = Some [] \<longrightarrow>
      summarizeWithMistral env txt = Inl (ErrorObj msgKeyMissing)) \<and>
   (mistral_api_key env = Some k \<and> k \<noteq> [] \<longrightarrow>
      (fetch_mistral env k (userPrompt txt) = MistralThrows e \<longrightarrow>
         summarizeWithMistral env txt = Inl e) \<and>
      (fetch_mistral env k (userPrompt txt) = MistralNotOk status None \<longrightarrow>
         summarizeWithMistral env txt = Inl (ErrorObj (msgMistralError status []))) \<and>
      (fetch_mistral env k (userPrompt txt) = MistralNotOk status (Some errText) \<longrightarrow>
         summarizeWithMistral env txt = Inl (ErrorObj (msgMistralError status errText))) \<and>
      (fetch_mistral env k (userPrompt txt) = MistralOk (Inl e) \<longrightarrow>
         summarizeWithMistral env txt = Inl e) \<and>
      (fetch_mistral env k (userPrompt txt) = MistralOk (Inr None) \<or>
       fetch_mistral env k (userPrompt txt) = MistralOk (Inr (Some [])) \<longrightarrow>
         summarizeWithMistral env txt = Inl (ErrorObj msgMistralEmpty)) \<and>
      (fetch_mistral env k (userPrompt txt) = MistralOk (Inr (Some content)) \<and> content \<noteq> [] \<longrightarrow>
         (extractFirstJsonObject (json_parse env) content = Inl e \<longrightarrow>
            summarizeWithMistral env txt = Inl e) \<and>
         (extractFirstJsonObject (json_parse env) content = Inr parsed \<longrightarrow>
            (summaryPoints (number_toString env) parsed = Inl e \<longrightarrow>
               summarizeWithMistral env txt = Inl e) \<and>
            (summaryPoints (number_toString env) parsed = Inr pts \<longrightarrow>
               summarizeWithMistral env txt = Inr (assembleTitle parsed, pts)))))"
  by (auto simp: summarizeWithMistral_def)

section \<open>The route: case analysis\<close>

lemma inputUrl_urlBody: "inputUrl (urlBody u) = Inr (Some (trim u))"
  by (simp add: inputUrl_def urlBody_def getProp_def)

lemma inputUrl_not_string:
  "v \<noteq> JNull \<Longrightarrow> \<forall>s. v \<noteq> JStr s \<Longrightarrow>
   inputUrl (Body (JObj [(lit ''url'', v)])) = Inl (ErrorObj msgTrimNotFunction)"
  by (cases v) (simp_all add: inputUrl_def getProp_def)

lemma POST_thrown:
  "inputUrl req = Inl e \<Longrightarrow> POST env req = JsonError (errorMessage e) 500"
  by (simp add: POST_def catchAll_def)

lemma POST_missing:
  "inputUrl req = Inr None \<or> inputUrl req = Inr (Some []) \<Longrightarrow>
   POST env req = JsonError msgUrlMissing 400"
  by (auto simp: POST_def catchAll_def)

lemma POST_invalid:
  "inputUrl req = Inr (Some u) \<Longrightarrow> u \<noteq> [] \<Longrightarrow>
   new_URL env u = None \<or>
     (\<exists>p. new_URL env u = Some p \<and> protocol p \<noteq> lit ''http:'' \<and> protocol p \<noteq> lit ''https:'') \<Longrightarrow>
   POST env req = JsonError msgUrlInvalid 400"
  by (auto simp: POST_def catchAll_def)

lemma POST_accepted:
  "acceptedUrl env req p \<Longrightarrow>
   POST env req =
     catchAll
       (case scrapeReadableText env (href p) of
          Inl e \<Rightarrow> Inl e
        | Inr txt \<Rightarrow>
            if txt = [] then Inr (JsonError msgNoContent 422)
            else
              (case summarizeWithMistral env txt of
                 Inl e \<Rightarrow> Inl e
               | Inr (ttl, summary_points) \<Rightarrow>
                   (case insert_summary env
                           \<lparr>original_url = href p, payload_title = ttl,
                            summary_json = json_stringify_points env summary_points\<rparr> of
                      InsertThrows e \<Rightarrow> Inl e
                    | InsertError message \<Rightarrow> Inr (JsonError message 500)
                    | InsertData None \<Rightarrow> Inl (ErrorObj msgNullRow)
                    | InsertData (Some inserted) \<Rightarrow>
                        Inr (JsonSummary
                              \<lparr>id_num = row_id inserted,
                               url = row_original_url inserted,
                               title = row_title inserted,
                               bullets = responseBullets env inserted,
                               created_at = row_created_at inserted\<rparr> 200))))"
  by (auto simp: POST_def acceptedUrl_def split: option.splits sum.splits)

lemma POST_cases:
  "(\<exists>e. inputUrl req = Inl e) \<or>
   (inputUrl req = Inr None \<or> inputUrl req = Inr (Some [])) \<or>
   (\<exists>u. inputUrl req = Inr (Some u) \<and> u \<noteq> [] \<and>
      (new_URL env u = None \<or>
       (\<exists>p. new_URL env u = Some p \<and> protocol p \<noteq> lit ''http:'' \<and> protocol p \<noteq> lit ''https:''))) \<or>
   (\<exists>p. acceptedUrl env req p)"
proof (cases "inputUrl req")
  case (Inl e)
  then show ?thesis by blast
next
  case (Inr u)
  then show ?thesis
    by (cases u) (auto simp: acceptedUrl_def)
qed

lemma POST_fetch_failure:
  "acceptedUrl env req p \<Longrightarrow> scrapeReadableText env (href p) = Inl e \<Longrightarrow>
   POST env req = JsonError (errorMessage e) 500"
  by (simp add: POST_accepted catchAll_def)

lemma POST_no_content:
  "acceptedUrl env req p \<Longrightarrow> scrapeReadableText env (href p) = Inr [] \<Longrightarrow>
   POST env req = JsonError msgNoContent 422"
  by (simp add: POST_accepted catchAll_def)

lemma POST_completion_failure:
  "acceptedUrl env req p \<Longrightarrow> scrapeReadableText env (href p) = Inr txt \<Longrightarrow> txt \<noteq> [] \<Longrightarrow>
   summarizeWithMistral env txt = Inl e \<Longrightarrow>
   POST env req = JsonError (errorMessage e) 500"
  by (simp add: POST_accepted catchAll_def)

lemma POST_insert:
  "acceptedUrl env req p \<Longrightarrow> scrapeReadableText env (href p) = Inr txt \<Longrightarrow> txt \<noteq> [] \<Longrightarrow>
   summarizeWithMistral env txt = Inr (ttl, pts) \<Longrightarrow>
   POST env req =
     (case insert_summary env
             \<lparr>original_url = href p, payload_title = ttl,
              summary_json = json_stringify_points env pts\<rparr> of
        InsertThrows e \<Rightarrow> JsonError (errorMessage e) 500
      | InsertError message \<Rightarrow> JsonError message 500
      | InsertData None \<Rightarrow> JsonError msgNullRow 500
      | InsertData (Some inserted) \<Rightarrow>
          JsonSummary
            \<lparr>id_num = row_id inserted, url = row_original_url inserted,
             title = row_title inserted, bullets = responseBullets env inserted,
             created_at = row_created_at inserted\<rparr> 200)"
  by (simp add: POST_accepted catchAll_def errorMessage_def split: insert_result.splits option.splits)

lemma POST_status:
  "(\<exists>msg. POST env req = JsonError msg 400) \<or> (\<exists>msg. POST env req = JsonError msg 422) \<or>
   (\<exists>msg. POST env req = JsonError msg 500) \<or> (\<exists>r. POST env req = JsonSummary r 200)"
proof -
  consider e where "inputUrl req = Inl e"
    | "inputUrl req = Inr None \<or> inputUrl req = Inr (Some [])"
    | u where "inputUrl req = Inr (Some u)" "u \<noteq> []" "new_URL env u = None \<or>
       (\<exists>p. new_URL env u = Some p \<and> protocol p \<noteq> lit ''http:'' \<and> protocol p \<noteq> lit ''https:'')"
    | p where "acceptedUrl env req p"
    using POST_cases [of req env] by blast
  then show ?thesis
  proof cases
    case 1
    then show ?thesis by (simp add: POST_thrown)
  next
    case 2
    then show ?thesis by (simp add: POST_missing)
  next
    case 3
    then show ?thesis by (simp add: POST_invalid)
  next
    case 4
    then show ?thesis
      by (auto simp: POST_accepted catchAll_def
          split: sum.splits prod.splits insert_result.splits option.splits)
  qed
qed


lemma scrape_not_ok:
  "fetch_page env u = PageResponse status body \<Longrightarrow> \<not> (200 \<le> status \<and> status \<le> 299) \<Longrightarrow>
   scrapeReadableText env u = Inl (ErrorObj (msgPageLoad status))"
  by (simp add: scrapeReadableText_def)

lemma scrape_throws:
  "fetch_page env u = PageThrows e \<Longrightarrow> scrapeReadableText env u = Inl e"
  by (simp add: scrapeReadableText_def)

lemma trim_Nil_iff: "trim s = [] \<longleftrightarrow> (\<forall>c \<in> set s. isSpace c)"
proof -
  have "dropWhile isSpace s = [] \<longleftrightarrow> (\<forall>c \<in> set s. isSpace c)"
    by (simp add: dropWhile_eq_Nil_conv)
  moreover have "trim s = [] \<longleftrightarrow> (\<forall>c \<in> set (dropWhile isSpace s). isSpace c)"
    by (simp add: trim_def dropWhile_eq_Nil_conv)
  moreover have "(\<forall>c \<in> set (dropWhile isSpace s). isSpace c) \<longleftrightarrow> dropWhile isSpace s = []"
  proof
    assume a: "\<forall>c \<in> set (dropWhile isSpace s). isSpace c"
    show "dropWhile isSpace s = []"
    proof (rule ccontr)
      assume n: "dropWhile isSpace s \<noteq> []"
      then have "\<not> isSpace (hd (dropWhile isSpace s))"
        by (rule hd_dropWhile)
      moreover from n have "hd (dropWhile isSpace s) \<in> set (dropWhile isSpace s)"
        by simp
      ultimately show False using a by blast
    qed
  next
    assume e: "dropWhile isSpace s = []"
    show "\<forall>c \<in> set (dropWhile isSpace s). isSpace c"
      unfolding e by simp
  qed
  ultimately show ?thesis by simp
qed

lemma normalizeWhitespace_blank:
  assumes "trim s = []"
  shows "normalizeWhitespace s = []"
proof (cases s)
  case Nil
  then show ?thesis by (simp add: normalizeWhitespace_def trim_def)
next
  case (Cons c cs)
  from assms have all: "\<forall>x \<in> set s. isSpace x"
    by (simp add: trim_Nil_iff)
  with Cons have d: "dropWhile isSpace cs = []" and c: "isSpace c"
    by simp_all
  have "replaceSpaceRuns (c # cs) = 0x20 # replaceSpaceRuns (dropWhile isSpace cs)"
    using c by simp
  also have "\<dots> = [0x20]"
    unfolding d by simp
  finally have "replaceSpaceRuns s = [0x20]"
    using Cons by simp
  then show ?thesis
    by (simp add: normalizeWhitespace_def trim_def isSpace_def)
qed

lemma readableText_blank:
  assumes "\<forall>c \<in> set [articleText doc, mainText doc, paraText doc]. trim c = []"
  shows "readableText doc = []"
proof -
  have "trim (orElse (articleText doc) (orElse (mainText doc) (paraText doc))) = []"
    using assms by (simp add: orElse_def)
  then show ?thesis
    by (simp add: readableText_def Let_def normalizeWhitespace_blank clamp_def)
qed

section \<open>Bounded key points\<close>



section \<open>Title\<close>

lemma defaultTitle_nonempty: "defaultTitle \<noteq> []"
  by (simp add: defaultTitle_def)

text \<open>
  C5 (as amended). The title is the object's title member when that is a string and
  the placeholder otherwise; the placeholder is not empty, so the title is empty exactly
  when the title member is the empty string. The title \<^verbatim>\<open>summarizeWithMistral\<close> returns is
  the title assembled from the recovered object.
\<close>

theorem C5_title:
  "(getProp parsed (lit ''title'') = Some (JStr s) \<longrightarrow> assembleTitle parsed = s) \<and>
   ((\<forall>s. getProp parsed (lit ''title'') \<noteq> Some (JStr s)) \<longrightarrow>
      assembleTitle parsed = defaultTitle) \<and>
   defaultTitle \<noteq> [] \<and>
   (assembleTitle parsed = [] \<longleftrightarrow> getProp parsed (lit ''title'') = Some (JStr [])) \<and>
   (summarizeWithMistral env txt = Inr (ttl, pts) \<longrightarrow>
      (\<exists>content obj. extractFirstJsonObject (json_parse env) content = Inr obj \<and>
         ttl = assembleTitle obj))"
proof (intro conjI impI)
  assume "getProp parsed (lit ''title'') = Some (JStr s)"
  then show "assembleTitle parsed = s"
    by (simp add: assembleTitle_def)
next
  assume "\<forall>s. getProp parsed (lit ''title'') \<noteq> Some (JStr s)"
  then show "assembleTitle parsed = defaultTitle"
    by (auto simp: assembleTitle_def split: option.splits json.splits)
next
  show "defaultTitle \<noteq> []"
    by (rule defaultTitle_nonempty)
next
  show "assembleTitle parsed = [] \<longleftrightarrow> getProp parsed (lit ''title'') = Some (JStr [])"
    using defaultTitle_nonempty
    by (auto simp: assembleTitle_def split: option.splits json.splits)
next
  assume "summarizeWithMistral env txt = Inr (ttl, pts)"
  then show "\<exists>content obj. extractFirstJsonObject (json_parse env) content = Inr obj \<and>
         ttl = assembleTitle obj"
    by (auto simp: summarizeWithMistral_def
        split: option.splits if_splits mistral_fetch.splits sum.splits)
qed

theorem C5_title_witness:
  \<open>getProp (JObj [(lit ''title'', JStr (lit ''A''))] :: jsstring json) (lit ''title'') = Some (JStr (lit ''A'')) \<and>
   assembleTitle (JObj [(lit ''title'', JStr (lit ''A''))] :: jsstring json) = lit ''A'' \<and>
   (\<forall>s. getProp (JObj [(lit ''title'', JNum (lit ''7''))]) (lit ''title'') \<noteq> Some (JStr s)) \<and>
   assembleTitle (JObj [(lit ''title'', JNum (lit ''7''))]) = defaultTitle \<and>
   summarizeWithMistral (demoEnv [] (lit ''ok {"title":"A"}'')) (lit ''text'') = Inr (lit ''A'', [])\<close>
proof -
  have a: \<open>getProp (JObj [(lit ''title'', JStr (lit ''A''))] :: jsstring json) (lit ''title'') = Some (JStr (lit ''A''))\<close>
    by code_simp
  have b: \<open>\<forall>s. getProp (JObj [(lit ''title'', JNum (lit ''7''))]) (lit ''title'') \<noteq> Some (JStr s)\<close>
    by (simp add: getProp_def)
  have c: \<open>summarizeWithMistral (demoEnv [] (lit ''ok {"title":"A"}'')) (lit ''text'') = Inr (lit ''A'', [])\<close>
    by code_simp
  from a b c
    C5_title [of \<open>JObj [(lit ''title'', JStr (lit ''A''))] :: jsstring json\<close> \<open>lit ''A''\<close>
      \<open>demoEnv [] (lit ''ok {"title":"A"}'')\<close> \<open>lit ''text''\<close> \<open>lit ''A''\<close> \<open>[]\<close>]
    C5_title [of \<open>JObj [(lit ''title'', JNum (lit ''7''))] :: jsstring json\<close> \<open>[]\<close>
      \<open>demoEnv [] (lit ''ok {"title":"A"}'')\<close> \<open>lit ''text''\<close> \<open>lit ''A''\<close> \<open>[]\<close>]
  show ?thesis
    by blast
qed

text \<open>
  C5 as stated fails: the completion \<^verbatim>\<open>{"title":""}\<close> has a title member that is a string,
  and the assembled title is the empty string.
\<close>

theorem C5_empty_title_counterexample:
  \<open>parseJson (lit ''{"title":""}'') = Some (JObj [(lit ''title'', JStr [])]) \<and>
   assembleTitle (JObj [(lit ''title'', JStr [])] :: jsstring json) = [] \<and>
   summarizeWithMistral (demoEnv [] (lit ''{"title":""}'')) (lit ''text'') = Inr ([], [])\<close>
  by code_simp

section \<open>History load\<close>

text \<open>
  C9. \<open>loadLocalHistory\<close> returns a list in every state of the storage (it is a total
  function: every throw of the source is caught inside it). The list is empty when the
  storage is absent or unreadable, when the slot is empty, when the text does not parse and
  when it parses to something that is not an array; a text that parses to an array gives
  that array. The empty text is read as "no entry" before parsing, which agrees with a
  parser that rejects the empty text, as \<^verbatim>\<open>JSON.parse\<close> does.
\<close>

theorem C9_load_history:
  "loadLocalHistory parse NoWindow = [] \<and>
   loadLocalHistory parse GetItemThrows = [] \<and>
   loadLocalHistory parse (Stored None) = [] \<and>
   (parse raw = None \<longrightarrow> loadLocalHistory parse (Stored (Some raw)) = []) \<and>
   (parse raw = Some v \<longrightarrow> (\<forall>xs. v \<noteq> JArr xs) \<longrightarrow>
      loadLocalHistory parse (Stored (Some raw)) = []) \<and>
   (parse [] = None \<longrightarrow> parse raw = Some (JArr items) \<longrightarrow>
      loadLocalHistory parse (Stored (Some raw)) = items)"
proof (intro conjI impI)
  show "loadLocalHistory parse NoWindow = []"
    by (simp add: loadLocalHistory_def)
  show "loadLocalHistory parse GetItemThrows = []"
    by (simp add: loadLocalHistory_def)
  show "loadLocalHistory parse (Stored None) = []"
    by (simp add: loadLocalHistory_def)
next
  assume "parse raw = None"
  then show "loadLocalHistory parse (Stored (Some raw)) = []"
    by (simp add: loadLocalHistory_def)
next
  assume "parse raw = Some v" and "\<forall>xs. v \<noteq> JArr xs"
  then show "loadLocalHistory parse (Stored (Some raw)) = []"
    by (cases v) (simp_all add: loadLocalHistory_def)
next
  assume e: "parse [] = None" and a: "parse raw = Some (JArr items)"
  then have "raw \<noteq> []"
    by auto
  with a show "loadLocalHistory parse (Stored (Some raw)) = items"
    by (simp add: loadLocalHistory_def)
qed

theorem C9_load_history_witness:
  \<open>parseJson (lit ''{oops'') = None \<and>
   loadLocalHistory parseJson (Stored (Some (lit ''{oops''))) = [] \<and>
   parseJson (lit ''{"a":1}'') = Some (JObj [(lit ''a'', JNum (lit ''1''))]) \<and>
   (\<forall>xs. JObj [(lit ''a'', JNum (lit ''1''))] \<noteq> JArr xs) \<and>
   loadLocalHistory parseJson (Stored (Some (lit ''{"a":1}''))) = [] \<and>
   parseJson [] = None \<and>
   parseJson (lit ''[{"id":1,"url":"a"}]'') =
     Some (JArr [JObj [(lit ''id'', JNum (lit ''1'')), (lit ''url'', JStr (lit ''a''))]]) \<and>
   loadLocalHistory parseJson (Stored (Some (lit ''[{"id":1,"url":"a"}]''))) =
     [JObj [(lit ''id'', JNum (lit ''1'')), (lit ''url'', JStr (lit ''a''))]]\<close>
proof -
  have a: \<open>parseJson (lit ''{oops'') = None\<close>
    by code_simp
  have b: \<open>parseJson (lit ''{"a":1}'') = Some (JObj [(lit ''a'', JNum (lit ''1''))])\<close>
    by code_simp
  have c: \<open>\<forall>xs. (JObj [(lit ''a'', JNum (lit ''1''))] :: jsstring json) \<noteq> JArr xs\<close>
    by simp
  have d: \<open>parseJson [] = None\<close>
    by code_simp
  have e: \<open>parseJson (lit ''[{"id":1,"url":"a"}]'') =
     Some (JArr [JObj [(lit ''id'', JNum (lit ''1'')), (lit ''url'', JStr (lit ''a''))]])\<close>
    by code_simp
  from a b c d e
    C9_load_history [of parseJson \<open>lit ''{oops''\<close>]
    C9_load_history [of parseJson \<open>lit ''{"a":1}''\<close> \<open>JObj [(lit ''a'', JNum (lit ''1''))]\<close>]
    C9_load_history [of parseJson \<open>lit ''[{"id":1,"url":"a"}]''\<close> _
      \<open>[JObj [(lit ''id'', JNum (lit ''1'')), (lit ''url'', JStr (lit ''a''))]]\<close>]
  show ?thesis
    by blast
qed

section \<open>Failure statuses of the route\<close>

text \<open>How the request decides \<open>acceptedUrl\<close>.\<close>

lemma acceptedUrl_Body:
  "acceptedUrl env (Body body) p \<longleftrightarrow>
     (\<exists>s. getProp body (lit ''url'') = Some (JStr s) \<and> trim s \<noteq> [] \<and>
          new_URL env (trim s) = Some p \<and>
          (protocol p = lit ''http:'' \<or> protocol p = lit ''https:''))"
  by (auto simp: acceptedUrl_def inputUrl_def split: option.splits json.splits)

text \<open>
  Every answer of \<^verbatim>\<open>POST\<close> has status 400, 422, 500 or 200. Read on the request: an
  unreadable body, a body without a \<^verbatim>\<open>url\<close> member or with \<^verbatim>\<open>null\<close> there, and a blank
  string give 400; so does a string that does not parse or is not http(s). Past these
  checks a failed page fetch, a failed completion call and a failed insert give 500, and
  an empty extracted text gives 422. A \<^verbatim>\<open>url\<close> member of any other kind gives 500.
\<close>

lemma POST_failure_statuses:
  "((\<exists>msg. POST env req = JsonError msg 400) \<or> (\<exists>msg. POST env req = JsonError msg 422) \<or>
    (\<exists>msg. POST env req = JsonError msg 500) \<or> (\<exists>r. POST env req = JsonSummary r 200)) \<and>
   POST env BodyUnreadable = JsonError msgUrlMissing 400 \<and>
   (getProp body (lit ''url'') = None \<or> getProp body (lit ''url'') = Some JNull \<longrightarrow>
      POST env (Body body) = JsonError msgUrlMissing 400) \<and>
   (getProp body (lit ''url'') = Some (JStr s) \<longrightarrow>
      (trim s = [] \<longrightarrow> POST env (Body body) = JsonError msgUrlMissing 400) \<and>
      (trim s \<noteq> [] \<and>
       (new_URL env (trim s) = None \<or>
        (\<exists>q. new_URL env (trim s) = Some q \<and>
             protocol q \<noteq> lit ''http:'' \<and> protocol q \<noteq> lit ''https:'')) \<longrightarrow>
         POST env (Body body) = JsonError msgUrlInvalid 400)) \<and>
   (getProp body (lit ''url'') = Some v \<and> v \<noteq> JNull \<and> (\<forall>s. v \<noteq> JStr s) \<longrightarrow>
      POST env (Body body) = JsonError msgTrimNotFunction 500) \<and>
   (acceptedUrl env req p \<longrightarrow>
      (fetch_page env (href p) = PageThrows e \<longrightarrow>
         POST env req = JsonError (errorMessage e) 500) \<and>
      (fetch_page env (href p) = PageResponse status (Inl e) \<and> 200 \<le> status \<and> status \<le> 299 \<longrightarrow>
         POST env req = JsonError (errorMessage e) 500) \<and>
      (fetch_page env (href p) = PageResponse status pageBody \<and>
       \<not> (200 \<le> status \<and> status \<le> 299) \<longrightarrow>
         POST env req = JsonError (msgPageLoad status) 500) \<and>
      (scrapeReadableText env (href p) = Inr [] \<longrightarrow>
         POST env req = JsonError msgNoContent 422) \<and>
      (scrapeReadableText env (href p) = Inr txt \<and> txt \<noteq> [] \<longrightarrow>
         (summarizeWithMistral env txt = Inl e \<longrightarrow>
            POST env req = JsonError (errorMessage e) 500) \<and>
         (summarizeWithMistral env txt = Inr (ttl, pts) \<longrightarrow>
            (insert_summary env
               \<lparr>original_url = href p, payload_title = ttl,
                summary_json = json_stringify_points env pts\<rparr> = InsertError msg \<longrightarrow>
               POST env req = JsonError msg 500) \<and>
            (insert_summary env
               \<lparr>original_url = href p, payload_title = ttl,
                summary_json = json_stringify_points env pts\<rparr> = InsertThrows e \<longrightarrow>
               POST env req = JsonError (errorMessage e) 500) \<and>
            (insert_summary env
               \<lparr>original_url = href p, payload_title = ttl,
                summary_json = json_stringify_points env pts\<rparr> = InsertData None \<longrightarrow>
               POST env req = JsonError msgNullRow 500))))"
proof (intro conjI impI)
  show "(\<exists>msg. POST env req = JsonError msg 400) \<or> (\<exists>msg. POST env req = JsonError msg 422) \<or>
    (\<exists>msg. POST env req = JsonError msg 500) \<or> (\<exists>r. POST env req = JsonSummary r 200)"
    by (rule POST_status)
next
  show "POST env BodyUnreadable = JsonError msgUrlMissing 400"
    by (rule POST_missing) (simp add: inputUrl_def)
next
  assume "getProp body (lit ''url'') = None \<or> getProp body (lit ''url'') = Some JNull"
  then have "inputUrl (Body body) = Inr None"
    by (auto simp: inputUrl_def)
  then show "POST env (Body body) = JsonError msgUrlMissing 400"
    by (simp add: POST_missing)
next
  assume "getProp body (lit ''url'') = Some (JStr s)" and "trim s = []"
  then have "inputUrl (Body body) = Inr (Some [])"
    by (simp add: inputUrl_def)
  then show "POST env (Body body) = JsonError msgUrlMissing 400"
    by (simp add: POST_missing)
next
  assume "getProp body (lit ''url'') = Some (JStr s)"
    and b: "trim s \<noteq> [] \<and>
       (new_URL env (trim s) = None \<or>
        (\<exists>q. new_URL env (trim s) = Some q \<and>
             protocol q \<noteq> lit ''http:'' \<and> protocol q \<noteq> lit ''https:''))"
  then have "inputUrl (Body body) = Inr (Some (trim s))"
    by (simp add: inputUrl_def)
  with b show "POST env (Body body) = JsonError msgUrlInvalid 400"
    using POST_invalid [of "Body body" "trim s" env] by blast
next
  assume "getProp body (lit ''url'') = Some v \<and> v \<noteq> JNull \<and> (\<forall>s. v \<noteq> JStr s)"
  then have "inputUrl (Body body) = Inl (ErrorObj msgTrimNotFunction)"
    by (cases v) (simp_all add: inputUrl_def)
  then show "POST env (Body body) = JsonError msgTrimNotFunction 500"
    by (simp add: POST_thrown errorMessage_def)
next
  assume "acceptedUrl env req p" and "fetch_page env (href p) = PageThrows e"
  then show "POST env req = JsonError (errorMessage e) 500"
    by (simp add: POST_fetch_failure scrape_throws)
next
  assume "acceptedUrl env req p"
    and "fetch_page env (href p) = PageResponse status (Inl e) \<and> 200 \<le> status \<and> status \<le> 299"
  then show "POST env req = JsonError (errorMessage e) 500"
    by (simp add: POST_fetch_failure scrapeReadableText_def)
next
  assume "acceptedUrl env req p"
    and "fetch_page env (href p) = PageResponse status pageBody \<and>
       \<not> (200 \<le> status \<and> status \<le> 299)"
  then show "POST env req = JsonError (msgPageLoad status) 500"
    using POST_fetch_failure [of env req p "ErrorObj (msgPageLoad status)"]
      scrape_not_ok [of env "href p" status pageBody]
    by (simp add: errorMessage_def)
next
  assume "acceptedUrl env req p" and "scrapeReadableText env (href p) = Inr []"
  then show "POST env req = JsonError msgNoContent 422"
    by (rule POST_no_content)
next
  assume "acceptedUrl env req p" and "scrapeReadableText env (href p) = Inr txt \<and> txt \<noteq> []"
    and "summarizeWithMistral env txt = Inl e"
  then show "POST env req = JsonError (errorMessage e) 500"
    using POST_completion_failure [of env req p "txt" e] by blast
next
  assume "acceptedUrl env req p" and "scrapeReadableText env (href p) = Inr txt \<and> txt \<noteq> []"
    and "summarizeWithMistral env txt = Inr (ttl, pts)"
    and "insert_summary env
               \<lparr>original_url = href p, payload_title = ttl,
                summary_json = json_stringify_points env pts\<rparr> = InsertError msg"
  then show "POST env req = JsonError msg 500"
    using POST_insert [of env req p "txt" ttl pts] by simp
next
  assume "acceptedUrl env req p" and "scrapeReadableText env (href p) = Inr txt \<and> txt \<noteq> []"
    and "summarizeWithMistral env txt = Inr (ttl, pts)"
    and "insert_summary env
               \<lparr>original_url = href p, payload_title = ttl,
                summary_json = json_stringify_points env pts\<rparr> = InsertThrows e"
  then show "POST env req = JsonError (errorMessage e) 500"
    using POST_insert [of env req p "txt" ttl pts] by simp
next
  assume "acceptedUrl env req p" and "scrapeReadableText env (href p) = Inr txt \<and> txt \<noteq> []"
    and "summarizeWithMistral env txt = Inr (ttl, pts)"
    and "insert_summary env
               \<lparr>original_url = href p, payload_title = ttl,
                summary_json = json_stringify_points env pts\<rparr> = InsertData None"
  then show "POST env req = JsonError msgNullRow 500"
    using POST_insert [of env req p "txt" ttl pts] by simp
qed

text \<open>
  C7. The code at the failing input: a request whose \<^verbatim>\<open>url\<close> member is a number, a
  boolean, an array or an object. \<^verbatim>\<open>body?.url?.trim()\<close> throws, the outer \<^verbatim>\<open>catch\<close> takes
  the \<^verbatim>\<open>TypeError\<close>, and the answer has status 500 in every environment, where the claim
  has 400 for an invalid URL. The neighbouring inputs get the 400 of the claim: a
  \<^verbatim>\<open>null\<close> member, no member, a body that is not an object, a string that is not an
  address (here with the stand-in for the \<^verbatim>\<open>URL\<close> constructor).
\<close>

theorem C7_non_string_url:
  "POST env (Body (JObj [(lit ''url'', JNum n)])) = JsonError msgTrimNotFunction 500 \<and>
   POST env (Body (JObj [(lit ''url'', JBool b)])) = JsonError msgTrimNotFunction 500 \<and>
   POST env (Body (JObj [(lit ''url'', JArr xs)])) = JsonError msgTrimNotFunction 500 \<and>
   POST env (Body (JObj [(lit ''url'', JObj kvs)])) = JsonError msgTrimNotFunction 500 \<and>
   POST env (Body (JObj [(lit ''url'', JNull)])) = JsonError msgUrlMissing 400 \<and>
   POST env (Body (JObj [])) = JsonError msgUrlMissing 400 \<and>
   POST env (Body (JNum n)) = JsonError msgUrlMissing 400 \<and>
   POST env BodyUnreadable = JsonError msgUrlMissing 400 \<and>
   POST (demoEnv helloDoc (lit ''{}'')) (urlBody (lit ''123'')) = JsonError msgUrlInvalid 400"
proof -
  have thrown: "POST env (Body (JObj [(lit ''url'', v)])) = JsonError msgTrimNotFunction 500"
    if "v \<noteq> JNull" "\<forall>s. v \<noteq> JStr s" for v
    using inputUrl_not_string [OF that] by (simp add: POST_thrown errorMessage_def)
  have missing: "POST env req = JsonError msgUrlMissing 400" if "inputUrl req = Inr None" for req
    using that by (simp add: POST_missing)
  have "POST (demoEnv helloDoc (lit ''{}'')) (urlBody (lit ''123'')) = JsonError msgUrlInvalid 400"
    by code_simp
  then show ?thesis
    by (simp add: thrown missing inputUrl_def getProp_def)
qed

section \<open>The address of a success response\<close>

lemma acceptedUrl_unique:
  "acceptedUrl env req p \<Longrightarrow> acceptedUrl env req q \<Longrightarrow> p = q"
  by (auto simp: acceptedUrl_def split: option.splits sum.splits)

lemma POST_success:
  assumes "POST env req = JsonSummary r st"
  shows "\<exists>p ttl pts inserted.
     acceptedUrl env req p \<and>
     insert_summary env
       \<lparr>original_url = href p, payload_title = ttl,
        summary_json = json_stringify_points env pts\<rparr> = InsertData (Some inserted) \<and>
     url r = row_original_url inserted \<and> st = 200"
proof -
  consider e where "inputUrl req = Inl e"
    | "inputUrl req = Inr None \<or> inputUrl req = Inr (Some [])"
    | u where "inputUrl req = Inr (Some u)" "u \<noteq> []" "new_URL env u = None \<or>
       (\<exists>p. new_URL env u = Some p \<and> protocol p \<noteq> lit ''http:'' \<and> protocol p \<noteq> lit ''https:'')"
    | p where "acceptedUrl env req p"
    using POST_cases [of req env] by blast
  then show ?thesis
  proof cases
    case 1
    with assms show ?thesis by (simp add: POST_thrown)
  next
    case 2
    with assms show ?thesis by (simp add: POST_missing)
  next
    case 3
    with assms show ?thesis by (simp add: POST_invalid)
  next
    case 4
    from assms have "\<exists>ttl pts inserted.
       insert_summary env
         \<lparr>original_url = href p, payload_title = ttl,
          summary_json = json_stringify_points env pts\<rparr> = InsertData (Some inserted) \<and>
       url r = row_original_url inserted \<and> st = 200"
      unfolding POST_accepted [OF 4]
      by (auto simp: catchAll_def
          split: sum.splits prod.splits insert_result.splits option.splits if_splits)
        blast+
    with 4 show ?thesis by blast
  qed
qed

text \<open>
  C10. A success response comes from a request whose trimmed \<^verbatim>\<open>url\<close> parsed to an
  http(s) address \<open>p\<close>; the payload handed to the store has \<^verbatim>\<open>original_url\<close> equal to the
  serialization \<open>href p\<close> of that address, and the response's \<^verbatim>\<open>url\<close> is the
  \<^verbatim>\<open>original_url\<close> of the row the store returned. With a store that returns the address it
  was given, the response's \<^verbatim>\<open>url\<close> is \<open>href p\<close>, so two requests whose addresses
  serialize alike get the same \<^verbatim>\<open>url\<close>.
\<close>

theorem C10_canonical_url:
  "(POST env req = JsonSummary r st \<longrightarrow>
      (\<exists>p ttl pts inserted.
         acceptedUrl env req p \<and>
         insert_summary env
           \<lparr>original_url = href p, payload_title = ttl,
            summary_json = json_stringify_points env pts\<rparr> = InsertData (Some inserted) \<and>
         url r = row_original_url inserted)) \<and>
   (storeEchoesUrl env \<longrightarrow> POST env req = JsonSummary r st \<longrightarrow> acceptedUrl env req q \<longrightarrow>
      url r = href q) \<and>
   (storeEchoesUrl env \<longrightarrow>
      POST env req = JsonSummary r st \<longrightarrow> POST env req' = JsonSummary r' st' \<longrightarrow>
      acceptedUrl env req q \<longrightarrow> acceptedUrl env req' q' \<longrightarrow> href q = href q' \<longrightarrow>
      url r = url r')"
proof -
  have echo: "url r = href q"
    if "storeEchoesUrl env" "POST env req = JsonSummary r st" "acceptedUrl env req q"
    for req r st q
  proof -
    from POST_success [OF that(2)] obtain p ttl pts inserted where
      p: "acceptedUrl env req p"
      and i: "insert_summary env
           \<lparr>original_url = href p, payload_title = ttl,
            summary_json = json_stringify_points env pts\<rparr> = InsertData (Some inserted)"
      and u: "url r = row_original_url inserted"
      by blast
    from p that(3) have "p = q"
      by (rule acceptedUrl_unique)
    moreover from that(1) i have "row_original_url inserted = href p"
      unfolding storeEchoesUrl_def by fastforce
    ultimately show ?thesis
      using u by simp
  qed
  show ?thesis
  proof (intro conjI impI)
    assume "POST env req = JsonSummary r st"
    from POST_success [OF this]
    show "\<exists>p ttl pts inserted.
         acceptedUrl env req p \<and>
         insert_summary env
           \<lparr>original_url = href p, payload_title = ttl,
            summary_json = json_stringify_points env pts\<rparr> = InsertData (Some inserted) \<and>
         url r = row_original_url inserted"
      by blast
  next
    assume "storeEchoesUrl env" "POST env req = JsonSummary r st" "acceptedUrl env req q"
    then show "url r = href q"
      by (rule echo)
  next
    assume "storeEchoesUrl env" "POST env req = JsonSummary r st"
      "POST env req' = JsonSummary r' st'" "acceptedUrl env req q" "acceptedUrl env req' q'"
      "href q = href q'"
    then show "url r = url r'"
      using echo [of req r st q] echo [of req' r' st' q'] by simp
  qed
qed

lemma demoEnv_echoes: "storeEchoesUrl (demoEnv doc completion)"
  by (auto simp: storeEchoesUrl_def demoEnv_def)

theorem C10_canonical_url_witness:
  \<open>storeEchoesUrl (demoEnv helloDoc (lit ''{"title":"A","summary_points":["x"]}'')) \<and>
   acceptedUrl (demoEnv helloDoc (lit ''{"title":"A","summary_points":["x"]}''))
     (urlBody (lit ''https://example.com'')) exampleUrl \<and>
   acceptedUrl (demoEnv helloDoc (lit ''{"title":"A","summary_points":["x"]}''))
     (urlBody (lit '' https://example.com/ '')) exampleUrl \<and>
   POST (demoEnv helloDoc (lit ''{"title":"A","summary_points":["x"]}''))
     (urlBody (lit ''https://example.com'')) =
     JsonSummary
       \<lparr>id_num = 1, url = lit ''https://example.com/'', title = lit ''A'',
        bullets = [lit ''x''], created_at = lit ''2025-01-01T00:00:00Z''\<rparr> 200 \<and>
   POST (demoEnv helloDoc (lit ''{"title":"A","summary_points":["x"]}''))
     (urlBody (lit '' https://example.com/ '')) =
     JsonSummary
       \<lparr>id_num = 1, url = lit ''https://example.com/'', title = lit ''A'',
        bullets = [lit ''x''], created_at = lit ''2025-01-01T00:00:00Z''\<rparr> 200 \<and>
   url \<lparr>id_num = 1, url = lit ''https://example.com/'', title = lit ''A'',
        bullets = [lit ''x''], created_at = lit ''2025-01-01T00:00:00Z''\<rparr> = href exampleUrl\<close>
proof -
  let ?env = \<open>demoEnv helloDoc (lit ''{"title":"A","summary_points":["x"]}'')\<close>
  let ?r = \<open>\<lparr>id_num = 1, url = lit ''https://example.com/'', title = lit ''A'',
        bullets = [lit ''x''], created_at = lit ''2025-01-01T00:00:00Z''\<rparr>\<close>
  have e: \<open>storeEchoesUrl ?env\<close>
    by (rule demoEnv_echoes)
  have a1: \<open>acceptedUrl ?env (urlBody (lit ''https://example.com'')) exampleUrl\<close>
    by code_simp
  have a2: \<open>acceptedUrl ?env (urlBody (lit '' https://example.com/ '')) exampleUrl\<close>
    by code_simp
  have p1: \<open>POST ?env (urlBody (lit ''https://example.com'')) = JsonSummary ?r 200\<close>
    by code_simp
  have p2: \<open>POST ?env (urlBody (lit '' https://example.com/ '')) = JsonSummary ?r 200\<close>
    by code_simp
  from e a1 a2 p1 p2
    C10_canonical_url [of ?env \<open>urlBody (lit ''https://example.com'')\<close> ?r 200 exampleUrl
      \<open>urlBody (lit '' https://example.com/ '')\<close> ?r 200 exampleUrl]
  show ?thesis
    by blast
qed

section \<open>Extractor: the choice among the candidates\<close>

text \<open>
  The extracted text is the normalized and clamped form of the first candidate that is
  not the empty string.
\<close>

lemma readableText_choice:
  "(articleText doc \<noteq> [] \<longrightarrow>
      readableText doc = clamp (normalizeWhitespace (articleText doc)) 12000) \<and>
   (articleText doc = [] \<and> mainText doc \<noteq> [] \<longrightarrow>
      readableText doc = clamp (normalizeWhitespace (mainText doc)) 12000) \<and>
   (articleText doc = [] \<and> mainText doc = [] \<longrightarrow>
      readableText doc = clamp (normalizeWhitespace (paraText doc)) 12000)"
  by (simp add: readableText_def orElse_def)

text \<open>
  C1. The code at the failing input \<open>blankArticleDoc\<close>, the page
  \<^verbatim>\<open><article><p></p><p></p></article><p>hello</p>\<close>. Its article candidate is the
  separator alone (a space and a line break): blank, but not the empty string. The first
  candidate that is non-empty after trimming is the paragraph candidate, which holds
  \<^verbatim>\<open>hello\<close>; the code selects the article candidate, normalizes it to the empty text, and
  the route answers 422. The fallback is there and works on the neighbouring pages: with
  one empty paragraph in the article the candidate is the empty string and the paragraph
  candidate is taken; with an empty article candidate the main candidate is taken. A
  single paragraph holding a space is rejected like the failing input.
\<close>

theorem C1_blank_candidate_selected:
  \<open>articleText blankArticleDoc = lit '' \<newline>'' \<and>
   trim (articleText blankArticleDoc) = [] \<and>
   mainText blankArticleDoc = [] \<and>
   paraText blankArticleDoc = lit '' \<newline> \<newline>hello'' \<and>
   find (\<lambda>c. trim c \<noteq> [])
     [articleText blankArticleDoc, mainText blankArticleDoc, paraText blankArticleDoc] =
     Some (lit '' \<newline> \<newline>hello'') \<and>
   clamp (normalizeWhitespace (lit '' \<newline> \<newline>hello'')) 12000 = lit ''hello'' \<and>
   readableText blankArticleDoc = [] \<and>
   POST (demoEnv blankArticleDoc (lit ''{}'')) (urlBody (lit ''https://example.com'')) =
     JsonError msgNoContent 422 \<and>
   articleText oneEmptyDoc = [] \<and>
   readableText oneEmptyDoc = lit ''hello'' \<and>
   articleText spaceDoc = lit '' '' \<and>
   readableText spaceDoc = [] \<and>
   articleText mainDoc = [] \<and>
   readableText mainDoc = lit ''m'' \<and>
   readableText articleDoc = lit ''T a b''\<close>
  by code_simp

end
